theory Spec2Isabelle
  imports Complex_Main "HOL-Library.Word" "HOL-Library.Sublist"
begin

section \<open>Values and errors\<close>

text \<open>
  Go values as HOL values. A \<open>uuid.UUID\<close> is sixteen bytes, \<open>int32\<close> is a 32-bit word
  read with \<open>sint\<close>, Go strings are byte strings. The program moves its \<open>float64\<close> amounts
  from the request to the SQL parameters and back without doing any arithmetic on them; the one
  computation on amounts is \<open>SUM\<close> inside the database, exact on \<open>NUMERIC\<close> columns. Amounts
  are therefore exact rationals here, the decimal numbers the request carried; the database
  rounds them to the scale of their column when it stores them (see \<open>numeric_round\<close>).
\<close>

type_synonym uuid = "128 word"
type_synonym int32 = "32 word"
type_synonym float64 = rat
type_synonym time = int
type_synonym rng = nat

definition uuid_Nil :: uuid where
  "uuid_Nil = 0"

text \<open>
  Go \<open>error\<close> values: \<open>fmt.Errorf\<close> with its formatted message, the errors of
  \<open>strconv\<close>, and the errors that reach the program from the database driver: no row
  for \<open>QueryRow\<close>, a failed \<open>Scan\<close>, an error raised by the server (\<open>PgError\<close>) and a
  failure of the connection (\<open>ConnError\<close>).
\<close>

datatype error =
    Errorf string
  | ErrSyntax
  | ErrRange
  | ErrNoRows
  | ScanError string
  | PgError string
  | ConnError string

fun Error :: "error \<Rightarrow> string" where
  "Error (Errorf m) = m"
| "Error ErrSyntax = ''invalid syntax''"
| "Error ErrRange = ''value out of range''"
| "Error ErrNoRows = ''no rows in result set''"
| "Error (ScanError m) = m"
| "Error (PgError m) = m"
| "Error (ConnError m) = m"

section \<open>models/model.go\<close>

definition InvoiceStatusPaid :: string where "InvoiceStatusPaid = ''paid''"
definition InvoiceStatusOverDue :: string where "InvoiceStatusOverDue = ''overdue''"
definition InvoiceStatusDraft :: string where "InvoiceStatusDraft = ''draft''"
definition InvoiceStatusPending :: string where "InvoiceStatusPending = ''pending''"

record User =
  usr_UserID :: uuid
  usr_Username :: string
  usr_Email :: string
  usr_Password :: string
  usr_FirstName :: string
  usr_LastName :: string
  usr_ProfilePictureURL :: string
  usr_PhoneNumber :: string
  usr_Address :: string
  usr_CreatedAt :: time
  usr_UpdatedAt :: time

record Customer =
  cus_CustomerID :: uuid
  cus_Name :: string
  cus_Email :: string
  cus_PhoneNumber :: string
  cus_Address :: string
  cus_CreatedAt :: time
  cus_UpdatedAt :: time

record Invoice =
  inv_InvoiceID :: uuid
  inv_InvoiceNumber :: string
  inv_SenderID :: uuid
  inv_CustomerID :: uuid
  inv_IssueDate :: time
  inv_DueDate :: time
  inv_TotalAmount :: float64
  inv_DiscountPercentage :: float64
  inv_DiscountedAmount :: float64
  inv_FinalAmount :: float64
  inv_Status :: string
  inv_Currency :: string
  inv_Notes :: string
  inv_CreatedAt :: time
  inv_UpdatedAt :: time

record InvoiceItem =
  itm_ItemID :: uuid
  itm_InvoiceID :: uuid
  itm_Name :: string
  itm_Description :: string
  itm_Quantity :: int
  itm_UnitPrice :: float64
  itm_TotalPrice :: float64
  itm_CreatedAt :: time
  itm_UpdatedAt :: time

record UserPaymentMethod =
  upm_PaymentMethodID :: uuid
  upm_UserID :: uuid
  upm_AccountName :: string
  upm_AccountNumber :: string
  upm_BankName :: string
  upm_BankAddress :: string
  upm_SwiftCode :: string
  upm_IsDefault :: bool
  upm_CreatedAt :: time
  upm_UpdatedAt :: time

record PaymentInformation =
  pin_PaymentInfoID :: uuid
  pin_InvoiceID :: uuid
  pin_PaymentMethodID :: uuid
  pin_CreatedAt :: time
  pin_UpdatedAt :: time

record InvoiceActivity =
  iac_ActivityID :: uuid
  iac_InvoiceID :: uuid
  iac_UserID :: uuid
  iac_Title :: string
  iac_Description :: string
  iac_CreatedAt :: time

record RecentActivity =
  rac_ActivityID :: uuid
  rac_UserID :: uuid
  rac_Title :: string
  rac_Description :: string
  rac_CreatedAt :: time

record InvoiceDetails =
  det_Invoice :: Invoice
  det_SenderName :: string
  det_SenderEmail :: string
  det_SenderPhoneNumber :: string
  det_SenderAddress :: string
  det_CustomerName :: string
  det_CustomerEmail :: string
  det_CustomerPhoneNumber :: string
  det_PaymentInformation :: UserPaymentMethod
  det_Items :: "InvoiceItem list"
  det_Activities :: "InvoiceActivity list"

text \<open>The zero value of \<open>UserPaymentMethod\<close>, as a declared and untouched Go struct has it.\<close>

definition zero_UserPaymentMethod :: UserPaymentMethod where
  "zero_UserPaymentMethod =
     \<lparr>upm_PaymentMethodID = uuid_Nil, upm_UserID = uuid_Nil, upm_AccountName = [],
      upm_AccountNumber = [], upm_BankName = [], upm_BankAddress = [], upm_SwiftCode = [],
      upm_IsDefault = False, upm_CreatedAt = 0, upm_UpdatedAt = 0\<rparr>"

section \<open>models/request.go\<close>

record AddInvoiceActivityRequest =
  aar_InvoiceID :: string
  aar_UserID :: string
  aar_Title :: string
  aar_Description :: string

record AddPaymentMethodRequest =
  apr_UserID :: string
  apr_AccountName :: string
  apr_AccountNumber :: string
  apr_BankName :: string
  apr_BankAddress :: string
  apr_SwiftCode :: string

record InvoiceInfo =
  inf_SenderID :: string
  inf_IssueDate :: string
  inf_DueDate :: string
  inf_TotalAmount :: float64
  inf_DiscountPercentage :: float64
  inf_DiscountedAmount :: float64
  inf_FinalAmount :: float64
  inf_Status :: string
  inf_Currency :: string
  inf_Notes :: string

record InvoiceItemDetails =
  iid_Name :: string
  iid_Description :: string
  iid_Quantity :: int
  iid_UnitPrice :: float64
  iid_TotalPrice :: float64

record CreateInvoiceRequest =
  req_Invoice :: InvoiceInfo
  req_CustomerID :: string
  req_PaymentMethodID :: string
  req_InvoiceItems :: "InvoiceItemDetails list"

section \<open>The environment of the program\<close>

text \<open>
  The tables of the migration, each a list of rows in insertion order, and the server clock
  that \<open>DEFAULT CURRENT_TIMESTAMP\<close> reads. A row is the model struct of its table. The
  program binds a Go value to every column it inserts, so no stored column is \<open>NULL\<close>;
  \<open>NULL\<close> arises only from the outer joins of a query.
\<close>

record database =
  users :: "User list"
  customers :: "Customer list"
  invoices :: "Invoice list"
  invoice_items :: "InvoiceItem list"
  user_payment_methods :: "UserPaymentMethod list"
  payment_information :: "PaymentInformation list"
  invoice_activities :: "InvoiceActivity list"
  recent_activities :: "RecentActivity list"
  now :: time

text \<open>
  The statements the repository sends, with their bound parameters. \<open>Begin\<close> and
  \<open>Commit\<close> are the transaction calls of the pool.
\<close>

datatype stmt =
    Begin
  | Commit
  | InsertInvoice Invoice
  | InsertInvoiceItem InvoiceItem
  | InsertPaymentInformation PaymentInformation
  | InsertInvoiceActivity InvoiceActivity
  | InsertRecentActivity RecentActivity
  | SelectInvoiceDetails uuid
  | SelectInvoiceItems uuid
  | SelectInvoiceActivities uuid
  | SelectTotalByStatus string
  | SelectRecentInvoices uuid int32 int32
  | SelectRecentActivities uuid int32 int32
  | SelectInvoiceActivitiesOfUser uuid uuid int32 int32

text \<open>
  What the program takes from outside its own source: the functions of third-party and
  standard packages whose results no property below depends on (\<open>uuid.Parse\<close>,
  \<open>uuid.New\<close>, \<open>time.Parse\<close>, \<open>rand.Int63n\<close>), left as parameters, and \<open>fault\<close>,
  which says for each statement whether the connection fails it before the database runs
  it (a lost connection, a cancelled context, a value the column type refuses). Every
  theorem holds for every such environment.
\<close>

record env =
  uuid_Parse :: "string \<Rightarrow> uuid option"
  uuid_New :: "rng \<Rightarrow> uuid \<times> rng"
  time_Parse :: "string \<Rightarrow> string \<Rightarrow> time option"
  Int63n :: "int \<Rightarrow> rng \<Rightarrow> int \<times> rng"
  fault :: "stmt \<Rightarrow> error option"

text \<open>The state the operations run in: the source of randomness and the committed database.\<close>

record world =
  rng :: rng
  store :: database

section \<open>helpers/helpers.go\<close>

text \<open>
  \<open>ValidateInvoiceStatus\<close> returns \<open>nil\<close> (\<open>None\<close>) for the four status constants and
  \<open>fmt.Errorf("invalid invoice status: %s", status)\<close> otherwise.
\<close>

definition ValidateInvoiceStatus :: "string \<Rightarrow> error option" where
  "ValidateInvoiceStatus status =
     (if status \<noteq> InvoiceStatusPaid \<and> status \<noteq> InvoiceStatusDraft \<and>
         status \<noteq> InvoiceStatusOverDue \<and> status \<noteq> InvoiceStatusPending
      then Some (Errorf (''invalid invoice status: '' @ status))
      else None)"

text \<open>
  \<open>strconv.FormatInt(n, 10)\<close>: the decimal digits, most significant first, after a minus
  sign for a negative number.
\<close>

definition digit_char :: "nat \<Rightarrow> char" where
  "digit_char d = ''0123456789'' ! d"

fun FormatUint :: "nat \<Rightarrow> string" where
  "FormatUint n = (if n < 10 then [digit_char n] else FormatUint (n div 10) @ [digit_char (n mod 10)])"

declare FormatUint.simps [simp del]

definition FormatInt :: "int \<Rightarrow> string" where
  "FormatInt n = (if n < 0 then CHR ''-'' # FormatUint (nat (- n)) else FormatUint (nat n))"

text \<open>
  \<open>RandomNumber\<close> draws \<open>r.Int63n(max-min+1) + min\<close> from a generator seeded with the
  clock and prints it in decimal. The draw is taken from the environment's source of
  randomness. (\<open>Int63n\<close> panics for an argument below 1; the one call site passes the
  constants 1000000000 and 9999999999.)
\<close>

definition RandomNumber :: "env \<Rightarrow> int \<Rightarrow> int \<Rightarrow> rng \<Rightarrow> string \<times> rng" where
  "RandomNumber E lo hi g =
     (case Int63n E (hi - lo + 1) g of (result, g') \<Rightarrow> (FormatInt (result + lo), g'))"

section \<open>strconv.ParseInt, as the handler calls it\<close>

text \<open>
  \<open>strconv.ParseInt(s, 10, 32)\<close> of the Go standard library: an optional sign, then one
  or more decimal digits read left to right (\<open>ParseUint\<close>), a syntax error at the first
  other byte, a range error as soon as the magnitude leaves 32 bits, and a range error when
  the signed value is outside \<open>[-2^31, 2^31 - 1]\<close>.
\<close>

definition is_digit :: "char \<Rightarrow> bool" where
  "is_digit c = (48 \<le> (of_char c :: nat) \<and> (of_char c :: nat) \<le> 57)"

definition digit_val :: "char \<Rightarrow> nat" where
  "digit_val c = of_char c - 48"

fun ParseUint_loop :: "nat \<Rightarrow> string \<Rightarrow> error + nat" where
  "ParseUint_loop n [] = Inr n"
| "ParseUint_loop n (c # cs) =
     (if \<not> is_digit c then Inl ErrSyntax
      else if n * 10 + digit_val c > 2 ^ 32 - 1 then Inl ErrRange
      else ParseUint_loop (n * 10 + digit_val c) cs)"

definition ParseUint :: "string \<Rightarrow> error + nat" where
  "ParseUint s = (if s = [] then Inl ErrSyntax else ParseUint_loop 0 s)"

definition ParseInt :: "string \<Rightarrow> error + int" where
  "ParseInt s =
     (case s of
        [] \<Rightarrow> Inl ErrSyntax
      | c # cs \<Rightarrow>
          (let neg = (c = CHR ''-'');
               s' = (if c = CHR ''+'' \<or> c = CHR ''-'' then cs else s)
           in case ParseUint s' of
                Inl e \<Rightarrow> Inl e
              | Inr un \<Rightarrow>
                  if \<not> neg \<and> un \<ge> 2 ^ 31 then Inl ErrRange
                  else if neg \<and> un > 2 ^ 31 then Inl ErrRange
                  else Inr (if neg then - int un else int un)))"

section \<open>Decimal numerals\<close>

text \<open>
  What it means for a query value to be numeric, said without the parser, for the
  statements about pagination: a numeral is an optional sign (\<open>+\<close> or \<open>-\<close>) followed by one
  or more decimal digits and nothing else; it denotes the number its digits spell in base
  ten, negated under a minus sign. Leading zeros and \<open>-0\<close> are numerals.
\<close>

definition drop_sign :: "string \<Rightarrow> string" where
  "drop_sign v =
     (case v of [] \<Rightarrow> [] | c # cs \<Rightarrow> if c = CHR ''+'' \<or> c = CHR ''-'' then cs else v)"

definition is_numeral :: "string \<Rightarrow> bool" where
  "is_numeral v = (drop_sign v \<noteq> [] \<and> list_all is_digit (drop_sign v))"

definition numeral_value :: "string \<Rightarrow> nat" where
  "numeral_value ds = foldl (\<lambda>a c. a * 10 + digit_val c) 0 ds"

definition signed_value :: "string \<Rightarrow> int" where
  "signed_value v =
     (case v of
        [] \<Rightarrow> 0
      | c # cs \<Rightarrow> if c = CHR ''-'' then - int (numeral_value cs) else int (numeral_value (drop_sign v)))"

section \<open>The database: statements on the schema of the migration\<close>

text \<open>
  \<open>exec\<close> runs one \<open>INSERT\<close> on a database value. The constraints are those the
  migration declares on the key columns: the \<open>CHECK\<close> on \<open>invoices.status\<close>, primary keys,
  the \<open>UNIQUE\<close> invoice number and the foreign keys. \<open>created_at\<close> and \<open>updated_at\<close>
  are not among the inserted columns and take \<open>CURRENT_TIMESTAMP\<close>. The other statements
  change no row.

  The amount columns are \<open>NUMERIC(10, 2)\<close> (\<open>NUMERIC(5, 2)\<close> for the discount percentage):
  PostgreSQL stores a value of such a column rounded to two decimal places, a tie going away
  from zero, and raises no error for the digits it drops. It refuses, with
  \<open>numeric field overflow\<close>, a value whose rounded magnitude needs more digits before the
  point than the precision leaves: \<open>10^8\<close> or more for \<open>NUMERIC(10, 2)\<close>, \<open>10^3\<close> or more
  for \<open>NUMERIC(5, 2)\<close>.
\<close>

definition round_half_away :: "rat \<Rightarrow> int" where
  "round_half_away x = (if 0 \<le> x then \<lfloor>x + 1 / 2\<rfloor> else - \<lfloor>- x + 1 / 2\<rfloor>)"

definition numeric_round :: "nat \<Rightarrow> float64 \<Rightarrow> float64" where
  "numeric_round scale v = of_int (round_half_away (v * 10 ^ scale)) / 10 ^ scale"

definition numeric_fits :: "nat \<Rightarrow> nat \<Rightarrow> float64 \<Rightarrow> bool" where
  "numeric_fits precision scale v = (\<bar>numeric_round scale v\<bar> < 10 ^ (precision - scale))"

definition as_invoices_row :: "Invoice \<Rightarrow> Invoice" where
  "as_invoices_row r =
     r\<lparr>inv_TotalAmount := numeric_round 2 (inv_TotalAmount r),
       inv_DiscountPercentage := numeric_round 2 (inv_DiscountPercentage r),
       inv_DiscountedAmount := numeric_round 2 (inv_DiscountedAmount r),
       inv_FinalAmount := numeric_round 2 (inv_FinalAmount r)\<rparr>"

definition as_invoice_items_row :: "InvoiceItem \<Rightarrow> InvoiceItem" where
  "as_invoice_items_row r =
     r\<lparr>itm_UnitPrice := numeric_round 2 (itm_UnitPrice r),
       itm_TotalPrice := numeric_round 2 (itm_TotalPrice r)\<rparr>"

definition status_check :: "string \<Rightarrow> bool" where
  "status_check s = (s \<in> set [''draft'', ''pending'', ''paid'', ''overdue''])"

fun exec :: "stmt \<Rightarrow> database \<Rightarrow> error + database" where
  "exec (InsertInvoice r) t =
     (if \<not> (numeric_fits 10 2 (inv_TotalAmount r) \<and> numeric_fits 5 2 (inv_DiscountPercentage r)
             \<and> numeric_fits 10 2 (inv_DiscountedAmount r) \<and> numeric_fits 10 2 (inv_FinalAmount r))
        then Inl (PgError ''numeric field overflow'')
      else if \<not> status_check (inv_Status r) then Inl (PgError ''invoices_status_check'')
      else if inv_InvoiceID r \<in> set (map inv_InvoiceID (invoices t))
        then Inl (PgError ''invoices_pkey'')
      else if inv_InvoiceNumber r \<in> set (map inv_InvoiceNumber (invoices t))
        then Inl (PgError ''invoices_invoice_number_key'')
      else if inv_SenderID r \<notin> set (map usr_UserID (users t))
        then Inl (PgError ''invoices_sender_id_fkey'')
      else if inv_CustomerID r \<notin> set (map cus_CustomerID (customers t))
        then Inl (PgError ''invoices_customer_id_fkey'')
      else Inr (t\<lparr>invoices := invoices t @
                   [(as_invoices_row r)\<lparr>inv_CreatedAt := now t, inv_UpdatedAt := now t\<rparr>]\<rparr>))"
| "exec (InsertInvoiceItem r) t =
     (if \<not> (numeric_fits 10 2 (itm_UnitPrice r) \<and> numeric_fits 10 2 (itm_TotalPrice r))
        then Inl (PgError ''numeric field overflow'')
      else if itm_ItemID r \<in> set (map itm_ItemID (invoice_items t))
        then Inl (PgError ''invoice_items_pkey'')
      else if itm_InvoiceID r \<notin> set (map inv_InvoiceID (invoices t))
        then Inl (PgError ''invoice_items_invoice_id_fkey'')
      else Inr (t\<lparr>invoice_items := invoice_items t @
                   [(as_invoice_items_row r)\<lparr>itm_CreatedAt := now t, itm_UpdatedAt := now t\<rparr>]\<rparr>))"
| "exec (InsertPaymentInformation r) t =
     (if pin_PaymentInfoID r \<in> set (map pin_PaymentInfoID (payment_information t))
        then Inl (PgError ''payment_information_pkey'')
      else if pin_InvoiceID r \<notin> set (map inv_InvoiceID (invoices t))
        then Inl (PgError ''payment_information_invoice_id_fkey'')
      else if pin_PaymentMethodID r \<notin> set (map upm_PaymentMethodID (user_payment_methods t))
        then Inl (PgError ''payment_information_payment_method_id_fkey'')
      else Inr (t\<lparr>payment_information :=
                   payment_information t @ [r\<lparr>pin_CreatedAt := now t, pin_UpdatedAt := now t\<rparr>]\<rparr>))"
| "exec (InsertInvoiceActivity r) t =
     (if iac_ActivityID r \<in> set (map iac_ActivityID (invoice_activities t))
        then Inl (PgError ''invoice_activities_pkey'')
      else if iac_InvoiceID r \<notin> set (map inv_InvoiceID (invoices t))
        then Inl (PgError ''invoice_activities_invoice_id_fkey'')
      else if iac_UserID r \<notin> set (map usr_UserID (users t))
        then Inl (PgError ''invoice_activities_user_id_fkey'')
      else Inr (t\<lparr>invoice_activities := invoice_activities t @ [r\<lparr>iac_CreatedAt := now t\<rparr>]\<rparr>))"
| "exec (InsertRecentActivity r) t =
     (if rac_ActivityID r \<in> set (map rac_ActivityID (recent_activities t))
        then Inl (PgError ''recent_activities_pkey'')
      else if rac_UserID r \<notin> set (map usr_UserID (users t))
        then Inl (PgError ''recent_activities_user_id_fkey'')
      else Inr (t\<lparr>recent_activities := recent_activities t @ [r\<lparr>rac_CreatedAt := now t\<rparr>]\<rparr>))"
| "exec _ t = Inr t"

text \<open>
  The calls of the pool and of a transaction. \<open>pool_Begin\<close> hands out a working copy of
  the committed database; \<open>tx_Exec\<close> runs a statement on the working copy; \<open>tx_Commit\<close>
  returns the working copy as the new committed database. A transaction that is rolled
  back, as the deferred \<open>tx.Rollback\<close> does on every return before the commit, leaves the
  committed database as it was. \<open>pool_Exec\<close> is a statement sent on the pool itself, which
  commits on its own.
\<close>

definition pool_Begin :: "env \<Rightarrow> database \<Rightarrow> error + database" where
  "pool_Begin E db = (case fault E Begin of Some e \<Rightarrow> Inl e | None \<Rightarrow> Inr db)"

definition tx_Exec :: "env \<Rightarrow> stmt \<Rightarrow> database \<Rightarrow> error + database" where
  "tx_Exec E q tx = (case fault E q of Some e \<Rightarrow> Inl e | None \<Rightarrow> exec q tx)"

definition tx_Commit :: "env \<Rightarrow> database \<Rightarrow> error + database" where
  "tx_Commit E tx = (case fault E Commit of Some e \<Rightarrow> Inl e | None \<Rightarrow> Inr tx)"

definition pool_Exec :: "env \<Rightarrow> stmt \<Rightarrow> database \<Rightarrow> error + database" where
  "pool_Exec E q db = (case fault E q of Some e \<Rightarrow> Inl e | None \<Rightarrow> exec q db)"

text \<open>
  The queries. An inner join keeps the pairs that match; a \<open>LEFT JOIN\<close> keeps a row of the
  left side without a match and gives it \<open>NULL\<close> (\<open>None\<close>) for the right side.
\<close>

definition left_join :: "'a list \<Rightarrow> 'a option list" where
  "left_join xs = (if xs = [] then [None] else map Some xs)"

definition select_invoice_details ::
  "database \<Rightarrow> uuid \<Rightarrow> (Invoice \<times> User \<times> Customer \<times> UserPaymentMethod option) list" where
  "select_invoice_details db invoiceID =
     [(i, s, c, pm).
        i \<leftarrow> invoices db, inv_InvoiceID i = invoiceID,
        s \<leftarrow> users db, usr_UserID s = inv_SenderID i,
        c \<leftarrow> customers db, cus_CustomerID c = inv_CustomerID i,
        p \<leftarrow> left_join [p \<leftarrow> payment_information db. pin_InvoiceID p = inv_InvoiceID i],
        pm \<leftarrow> (case p of
                 None \<Rightarrow> [None]
               | Some p' \<Rightarrow>
                   left_join [m \<leftarrow> user_payment_methods db.
                                upm_PaymentMethodID m = pin_PaymentMethodID p'])]"

definition sql_SUM :: "float64 list \<Rightarrow> float64 option" where
  "sql_SUM xs = (if xs = [] then None else Some (sum_list xs))"

definition COALESCE :: "'a option \<Rightarrow> 'a \<Rightarrow> 'a" where
  "COALESCE v d = (case v of None \<Rightarrow> d | Some x \<Rightarrow> x)"

definition select_total_by_status :: "database \<Rightarrow> string \<Rightarrow> int \<times> float64" where
  "select_total_by_status db status =
     (let rows = [i \<leftarrow> invoices db. inv_Status i = status]
      in (int (length rows), COALESCE (sql_SUM (map inv_FinalAmount rows)) 0))"

text \<open>
  \<open>LIMIT\<close> and \<open>OFFSET\<close> of PostgreSQL: a negative value of either is an error of the
  statement.
\<close>

definition limit_offset :: "int32 \<Rightarrow> int32 \<Rightarrow> 'a list \<Rightarrow> error + 'a list" where
  "limit_offset limit offset rows =
     (if sint offset < 0 then Inl (PgError ''OFFSET must not be negative'')
      else if sint limit < 0 then Inl (PgError ''LIMIT must not be negative'')
      else Inr (take (nat (sint limit)) (drop (nat (sint offset)) rows)))"

text \<open>
  \<open>Scan\<close> of the driver (pgx v5) for the two destination types that can meet a \<open>NULL\<close>
  here. A \<open>uuid.UUID\<close> destination is an \<open>sql.Scanner\<close> and keeps its value on \<open>NULL\<close>; a
  \<open>string\<close> destination cannot hold \<open>NULL\<close> and the scan fails.
\<close>

definition scan_uuid :: "uuid option \<Rightarrow> uuid \<Rightarrow> error + uuid" where
  "scan_uuid v dst = (case v of None \<Rightarrow> Inr dst | Some x \<Rightarrow> Inr x)"

definition scan_string :: "string option \<Rightarrow> error + string" where
  "scan_string v =
     (case v of None \<Rightarrow> Inl (ScanError ''cannot scan NULL into *string'') | Some x \<Rightarrow> Inr x)"

section \<open>repository/repo.go\<close>

text \<open>
  The repository interfaces: one function per method, from the state before the call to
  the result and the state after it. A Go result \<open>(value, error)\<close> is a sum, \<open>Inl\<close> the
  error.
\<close>

record UserRepository =
  UserRepository_CreateUser :: "User \<Rightarrow> world \<Rightarrow> (error + uuid) \<times> world"
  UserRepository_AddCustomer :: "Customer \<Rightarrow> world \<Rightarrow> (error + uuid) \<times> world"
  UserRepository_AddPaymentMethod :: "UserPaymentMethod \<Rightarrow> world \<Rightarrow> (error + uuid) \<times> world"

record InvoiceRepository =
  InvoiceRepository_GetTotalByStatus :: "string \<Rightarrow> world \<Rightarrow> (error + float64 \<times> int) \<times> world"
  InvoiceRepository_CreateInvoice ::
    "Invoice \<Rightarrow> InvoiceItem list \<Rightarrow> uuid \<Rightarrow> PaymentInformation \<Rightarrow> world \<Rightarrow> (error + uuid) \<times> world"
  InvoiceRepository_GetInvoiceDetails :: "uuid \<Rightarrow> world \<Rightarrow> (error + InvoiceDetails) \<times> world"
  InvoiceRepository_AddInvoiceActivity :: "InvoiceActivity \<Rightarrow> world \<Rightarrow> (error + uuid) \<times> world"
  InvoiceRepository_GetRecentInvoices ::
    "uuid \<Rightarrow> int32 \<Rightarrow> int32 \<Rightarrow> world \<Rightarrow> (error + Invoice list) \<times> world"
  InvoiceRepository_GetRecentActivities ::
    "uuid \<Rightarrow> int32 \<Rightarrow> int32 \<Rightarrow> world \<Rightarrow> (error + RecentActivity list) \<times> world"
  InvoiceRepository_GetInvoiceActivities ::
    "uuid \<Rightarrow> uuid \<Rightarrow> int32 \<Rightarrow> int32 \<Rightarrow> world \<Rightarrow> (error + InvoiceActivity list) \<times> world"

section \<open>repository/invoice.go\<close>

text \<open>
  \<open>CreateInvoice\<close>, in the order of the source. The statements up to the payment
  information come first; the loop over the items stops at the first failure.
\<close>

fun insert_items :: "env \<Rightarrow> uuid \<Rightarrow> InvoiceItem list \<Rightarrow> database \<Rightarrow> error + database" where
  "insert_items E invoiceID [] tx = Inr tx"
| "insert_items E invoiceID (item # items) tx =
     (case tx_Exec E (InsertInvoiceItem (item\<lparr>itm_InvoiceID := invoiceID\<rparr>)) tx of
        Inl err \<Rightarrow> Inl err
      | Inr tx' \<Rightarrow> insert_items E invoiceID items tx')"

definition insert_invoice_rows ::
  "env \<Rightarrow> Invoice \<Rightarrow> InvoiceItem list \<Rightarrow> uuid \<Rightarrow> PaymentInformation \<Rightarrow> database
     \<Rightarrow> error + database" where
  "insert_invoice_rows E invoice items customerID paymentInfo tx =
     (case tx_Exec E (InsertInvoice (invoice\<lparr>inv_CustomerID := customerID\<rparr>)) tx of
        Inl err \<Rightarrow> Inl err
      | Inr tx1 \<Rightarrow>
     (case insert_items E (inv_InvoiceID invoice) items tx1 of
        Inl err \<Rightarrow> Inl err
      | Inr tx2 \<Rightarrow>
          tx_Exec E (InsertPaymentInformation
                       (paymentInfo\<lparr>pin_InvoiceID := inv_InvoiceID invoice\<rparr>)) tx2))"

text \<open>The two activity rows share the identifier, the title and the description.\<close>

definition creation_activity :: "Invoice \<Rightarrow> uuid \<Rightarrow> InvoiceActivity" where
  "creation_activity invoice activityID =
     \<lparr>iac_ActivityID = activityID, iac_InvoiceID = inv_InvoiceID invoice,
      iac_UserID = inv_SenderID invoice, iac_Title = ''Invoice Creation'',
      iac_Description = ''Created invoice '' @ inv_InvoiceNumber invoice, iac_CreatedAt = 0\<rparr>"

definition creation_recent_activity :: "Invoice \<Rightarrow> uuid \<Rightarrow> RecentActivity" where
  "creation_recent_activity invoice activityID =
     \<lparr>rac_ActivityID = activityID, rac_UserID = inv_SenderID invoice,
      rac_Title = ''Invoice Creation'',
      rac_Description = ''Created invoice '' @ inv_InvoiceNumber invoice, rac_CreatedAt = 0\<rparr>"

definition insert_activity_rows :: "env \<Rightarrow> Invoice \<Rightarrow> uuid \<Rightarrow> database \<Rightarrow> error + database" where
  "insert_activity_rows E invoice activityID tx =
     (case tx_Exec E (InsertInvoiceActivity (creation_activity invoice activityID)) tx of
        Inl err \<Rightarrow> Inl err
      | Inr tx1 \<Rightarrow>
          tx_Exec E (InsertRecentActivity (creation_recent_activity invoice activityID)) tx1)"

definition invoiceRepoImpl_CreateInvoice ::
  "env \<Rightarrow> Invoice \<Rightarrow> InvoiceItem list \<Rightarrow> uuid \<Rightarrow> PaymentInformation \<Rightarrow> world
     \<Rightarrow> (error + uuid) \<times> world" where
  "invoiceRepoImpl_CreateInvoice E invoice items customerID paymentInfo w =
     (case pool_Begin E (store w) of
        Inl err \<Rightarrow> (Inl err, w)
      | Inr tx \<Rightarrow>
     (case insert_invoice_rows E invoice items customerID paymentInfo tx of
        Inl err \<Rightarrow> (Inl err, w)
      | Inr tx1 \<Rightarrow>
     (case uuid_New E (rng w) of (activityID, g) \<Rightarrow>
     (case insert_activity_rows E invoice activityID tx1 of
        Inl err \<Rightarrow> (Inl err, w\<lparr>rng := g\<rparr>)
      | Inr tx2 \<Rightarrow>
     (case tx_Commit E tx2 of
        Inl err \<Rightarrow> (Inl err, w\<lparr>rng := g\<rparr>)
      | Inr db \<Rightarrow> (Inr (inv_InvoiceID invoice), w\<lparr>rng := g, store := db\<rparr>))))))"

text \<open>
  \<open>GetInvoiceDetails\<close>: the joined row is scanned column by column into a fresh
  \<open>InvoiceDetails\<close>; the seven columns of the outer-joined payment method go into the two
  identifiers and the five strings of \<open>PaymentInformation\<close>. The items and the activities
  are read by two further queries; the item query does not select the two timestamps.
\<close>

definition scan_details ::
  "Invoice \<times> User \<times> Customer \<times> UserPaymentMethod option \<Rightarrow> error + InvoiceDetails" where
  "scan_details row =
     (case row of (i, s, c, pm) \<Rightarrow>
     (case scan_uuid (map_option upm_PaymentMethodID pm) uuid_Nil of
        Inl err \<Rightarrow> Inl err | Inr paymentMethodID \<Rightarrow>
     (case scan_uuid (map_option upm_UserID pm) uuid_Nil of
        Inl err \<Rightarrow> Inl err | Inr userID \<Rightarrow>
     (case scan_string (map_option upm_AccountName pm) of
        Inl err \<Rightarrow> Inl err | Inr accountName \<Rightarrow>
     (case scan_string (map_option upm_AccountNumber pm) of
        Inl err \<Rightarrow> Inl err | Inr accountNumber \<Rightarrow>
     (case scan_string (map_option upm_BankName pm) of
        Inl err \<Rightarrow> Inl err | Inr bankName \<Rightarrow>
     (case scan_string (map_option upm_BankAddress pm) of
        Inl err \<Rightarrow> Inl err | Inr bankAddress \<Rightarrow>
     (case scan_string (map_option upm_SwiftCode pm) of
        Inl err \<Rightarrow> Inl err | Inr swiftCode \<Rightarrow>
        Inr \<lparr>det_Invoice = i,
             det_SenderName = usr_FirstName s @ '' '' @ usr_LastName s,
             det_SenderEmail = usr_Email s,
             det_SenderPhoneNumber = usr_PhoneNumber s,
             det_SenderAddress = usr_Address s,
             det_CustomerName = cus_Name c,
             det_CustomerEmail = cus_Email c,
             det_CustomerPhoneNumber = cus_PhoneNumber c,
             det_PaymentInformation = zero_UserPaymentMethod
               \<lparr>upm_PaymentMethodID := paymentMethodID, upm_UserID := userID,
                upm_AccountName := accountName, upm_AccountNumber := accountNumber,
                upm_BankName := bankName, upm_BankAddress := bankAddress,
                upm_SwiftCode := swiftCode\<rparr>,
             det_Items = [], det_Activities = []\<rparr>))))))))"

definition select_invoice_items :: "database \<Rightarrow> uuid \<Rightarrow> InvoiceItem list" where
  "select_invoice_items db invoiceID =
     map (\<lambda>r. r\<lparr>itm_CreatedAt := 0, itm_UpdatedAt := 0\<rparr>)
       [r \<leftarrow> invoice_items db. itm_InvoiceID r = invoiceID]"

definition select_invoice_activities :: "database \<Rightarrow> uuid \<Rightarrow> InvoiceActivity list" where
  "select_invoice_activities db invoiceID =
     sort_key iac_CreatedAt [r \<leftarrow> invoice_activities db. iac_InvoiceID r = invoiceID]"

definition invoiceRepoImpl_GetInvoiceDetails ::
  "env \<Rightarrow> uuid \<Rightarrow> world \<Rightarrow> (error + InvoiceDetails) \<times> world" where
  "invoiceRepoImpl_GetInvoiceDetails E invoiceID w =
     (case fault E (SelectInvoiceDetails invoiceID) of
        Some err \<Rightarrow> (Inl err, w)
      | None \<Rightarrow>
     (case select_invoice_details (store w) invoiceID of
        [] \<Rightarrow> (Inl ErrNoRows, w)
      | row # _ \<Rightarrow>
     (case scan_details row of
        Inl err \<Rightarrow> (Inl err, w)
      | Inr details \<Rightarrow>
     (case fault E (SelectInvoiceItems invoiceID) of
        Some err \<Rightarrow> (Inl err, w)
      | None \<Rightarrow>
     (case fault E (SelectInvoiceActivities invoiceID) of
        Some err \<Rightarrow> (Inl err, w)
      | None \<Rightarrow>
          (Inr (details\<lparr>det_Items := select_invoice_items (store w) invoiceID,
                         det_Activities := select_invoice_activities (store w) invoiceID\<rparr>),
           w))))))"

definition invoiceRepoImpl_AddInvoiceActivity ::
  "env \<Rightarrow> InvoiceActivity \<Rightarrow> world \<Rightarrow> (error + uuid) \<times> world" where
  "invoiceRepoImpl_AddInvoiceActivity E activity w =
     (case pool_Exec E (InsertInvoiceActivity activity) (store w) of
        Inl err \<Rightarrow> (Inl err, w)
      | Inr db \<Rightarrow> (Inr (iac_ActivityID activity), w\<lparr>store := db\<rparr>))"

definition invoiceRepoImpl_GetTotalByStatus ::
  "env \<Rightarrow> string \<Rightarrow> world \<Rightarrow> (error + float64 \<times> int) \<times> world" where
  "invoiceRepoImpl_GetTotalByStatus E status w =
     (case fault E (SelectTotalByStatus status) of
        Some err \<Rightarrow> (Inl err, w)
      | None \<Rightarrow>
          (case select_total_by_status (store w) status of
             (count, totalAmount) \<Rightarrow> (Inr (totalAmount, count), w)))"

definition invoiceRepoImpl_GetRecentInvoices ::
  "env \<Rightarrow> uuid \<Rightarrow> int32 \<Rightarrow> int32 \<Rightarrow> world \<Rightarrow> (error + Invoice list) \<times> world" where
  "invoiceRepoImpl_GetRecentInvoices E senderID limit offset w =
     (case fault E (SelectRecentInvoices senderID limit offset) of
        Some err \<Rightarrow> (Inl err, w)
      | None \<Rightarrow>
          (limit_offset limit offset
             (rev (sort_key inv_CreatedAt [r \<leftarrow> invoices (store w). inv_SenderID r = senderID])),
           w))"

definition invoiceRepoImpl_GetRecentActivities ::
  "env \<Rightarrow> uuid \<Rightarrow> int32 \<Rightarrow> int32 \<Rightarrow> world \<Rightarrow> (error + RecentActivity list) \<times> world" where
  "invoiceRepoImpl_GetRecentActivities E userID limit offset w =
     (case fault E (SelectRecentActivities userID limit offset) of
        Some err \<Rightarrow> (Inl err, w)
      | None \<Rightarrow>
          (limit_offset limit offset
             (rev (sort_key rac_CreatedAt
                     [r \<leftarrow> recent_activities (store w). rac_UserID r = userID])),
           w))"

definition invoiceRepoImpl_GetInvoiceActivities ::
  "env \<Rightarrow> uuid \<Rightarrow> uuid \<Rightarrow> int32 \<Rightarrow> int32 \<Rightarrow> world \<Rightarrow> (error + InvoiceActivity list) \<times> world" where
  "invoiceRepoImpl_GetInvoiceActivities E userID invoiceID limit offset w =
     (case fault E (SelectInvoiceActivitiesOfUser userID invoiceID limit offset) of
        Some err \<Rightarrow> (Inl err, w)
      | None \<Rightarrow>
          (limit_offset limit offset
             (rev (sort_key iac_CreatedAt
                     [r \<leftarrow> invoice_activities (store w).
                        iac_UserID r = userID \<and> iac_InvoiceID r = invoiceID])),
           w))"

definition newInvoiceRepoImpl :: "env \<Rightarrow> InvoiceRepository" where
  "newInvoiceRepoImpl E =
     \<lparr>InvoiceRepository_GetTotalByStatus = invoiceRepoImpl_GetTotalByStatus E,
      InvoiceRepository_CreateInvoice = invoiceRepoImpl_CreateInvoice E,
      InvoiceRepository_GetInvoiceDetails = invoiceRepoImpl_GetInvoiceDetails E,
      InvoiceRepository_AddInvoiceActivity = invoiceRepoImpl_AddInvoiceActivity E,
      InvoiceRepository_GetRecentInvoices = invoiceRepoImpl_GetRecentInvoices E,
      InvoiceRepository_GetRecentActivities = invoiceRepoImpl_GetRecentActivities E,
      InvoiceRepository_GetInvoiceActivities = invoiceRepoImpl_GetInvoiceActivities E\<rparr>"

section \<open>service/service.go\<close>

record InvoiceService =
  InvoiceService_CreateInvoice :: "CreateInvoiceRequest \<Rightarrow> world \<Rightarrow> (error + uuid) \<times> world"
  InvoiceService_GetInvoiceDetails :: "uuid \<Rightarrow> world \<Rightarrow> (error + InvoiceDetails) \<times> world"
  InvoiceService_AddInvoiceActivity ::
    "AddInvoiceActivityRequest \<Rightarrow> world \<Rightarrow> (error + uuid) \<times> world"
  InvoiceService_GetTotalByStatus :: "string \<Rightarrow> world \<Rightarrow> (error + float64 \<times> int) \<times> world"
  InvoiceService_GetRecentInvoices ::
    "uuid \<Rightarrow> int32 \<Rightarrow> int32 \<Rightarrow> world \<Rightarrow> (error + Invoice list) \<times> world"
  InvoiceService_GetRecentActivities ::
    "uuid \<Rightarrow> int32 \<Rightarrow> int32 \<Rightarrow> world \<Rightarrow> (error + RecentActivity list) \<times> world"
  InvoiceService_GetInvoiceActivities ::
    "uuid \<Rightarrow> uuid \<Rightarrow> int32 \<Rightarrow> int32 \<Rightarrow> world \<Rightarrow> (error + InvoiceActivity list) \<times> world"

section \<open>service/invoice.go\<close>

text \<open>The loop that turns the submitted items into rows, one fresh identifier each.\<close>

fun make_items :: "env \<Rightarrow> uuid \<Rightarrow> InvoiceItemDetails list \<Rightarrow> rng \<Rightarrow> InvoiceItem list \<times> rng" where
  "make_items E invoiceID [] g = ([], g)"
| "make_items E invoiceID (item # rest) g =
     (case uuid_New E g of (itemID, g1) \<Rightarrow>
     (case make_items E invoiceID rest g1 of (items, g2) \<Rightarrow>
        (\<lparr>itm_ItemID = itemID, itm_InvoiceID = invoiceID, itm_Name = iid_Name item,
          itm_Description = iid_Description item, itm_Quantity = iid_Quantity item,
          itm_UnitPrice = iid_UnitPrice item, itm_TotalPrice = iid_TotalPrice item,
          itm_CreatedAt = 0, itm_UpdatedAt = 0\<rparr> # items, g2)))"

definition layout :: string where
  "layout = ''2006-01-02''"

definition invoiceServiceImpl_CreateInvoice ::
  "env \<Rightarrow> InvoiceRepository \<Rightarrow> CreateInvoiceRequest \<Rightarrow> world \<Rightarrow> (error + uuid) \<times> world" where
  "invoiceServiceImpl_CreateInvoice E repo data w =
     (case uuid_New E (rng w) of (invoiceID, g1) \<Rightarrow>
     (case uuid_Parse E (inf_SenderID (req_Invoice data)) of
        None \<Rightarrow> (Inl (Errorf ''invalid sender id''), w\<lparr>rng := g1\<rparr>)
      | Some senderID \<Rightarrow>
     (case uuid_Parse E (req_CustomerID data) of
        None \<Rightarrow> (Inl (Errorf ''invalid customer id''), w\<lparr>rng := g1\<rparr>)
      | Some customerID \<Rightarrow>
     (case ValidateInvoiceStatus (inf_Status (req_Invoice data)) of
        Some err \<Rightarrow> (Inl err, w\<lparr>rng := g1\<rparr>)
      | None \<Rightarrow>
     (case time_Parse E layout (inf_IssueDate (req_Invoice data)) of
        None \<Rightarrow> (Inl (Errorf ''issue date has invalid date format''), w\<lparr>rng := g1\<rparr>)
      | Some issueDate \<Rightarrow>
     (case time_Parse E layout (inf_DueDate (req_Invoice data)) of
        None \<Rightarrow> (Inl (Errorf ''due date has invalid date format''), w\<lparr>rng := g1\<rparr>)
      | Some dueDate \<Rightarrow>
     (case RandomNumber E 1000000000 9999999999 g1 of (invoiceNumber, g2) \<Rightarrow>
     (case make_items E invoiceID (req_InvoiceItems data) g2 of (items, g3) \<Rightarrow>
     (case uuid_New E g3 of (paymentInfoID, g4) \<Rightarrow>
     (case uuid_Parse E (req_PaymentMethodID data) of
        None \<Rightarrow> (Inl (Errorf ''invalid payment method id''), w\<lparr>rng := g4\<rparr>)
      | Some paymentMethodID \<Rightarrow>
          InvoiceRepository_CreateInvoice repo
            \<lparr>inv_InvoiceID = invoiceID,
             inv_InvoiceNumber = invoiceNumber,
             inv_SenderID = senderID,
             inv_CustomerID = customerID,
             inv_IssueDate = issueDate,
             inv_DueDate = dueDate,
             inv_TotalAmount = inf_TotalAmount (req_Invoice data),
             inv_DiscountPercentage = inf_DiscountPercentage (req_Invoice data),
             inv_DiscountedAmount = inf_DiscountedAmount (req_Invoice data),
             inv_FinalAmount = inf_FinalAmount (req_Invoice data),
             inv_Status = inf_Status (req_Invoice data),
             inv_Currency = inf_Currency (req_Invoice data),
             inv_Notes = inf_Notes (req_Invoice data),
             inv_CreatedAt = 0, inv_UpdatedAt = 0\<rparr>
            items customerID
            \<lparr>pin_PaymentInfoID = paymentInfoID, pin_InvoiceID = invoiceID,
             pin_PaymentMethodID = paymentMethodID, pin_CreatedAt = 0, pin_UpdatedAt = 0\<rparr>
            (w\<lparr>rng := g4\<rparr>)))))))))))"

definition invoiceServiceImpl_GetInvoiceDetails ::
  "InvoiceRepository \<Rightarrow> uuid \<Rightarrow> world \<Rightarrow> (error + InvoiceDetails) \<times> world" where
  "invoiceServiceImpl_GetInvoiceDetails repo invoiceID w =
     InvoiceRepository_GetInvoiceDetails repo invoiceID w"

definition invoiceServiceImpl_AddInvoiceActivity ::
  "env \<Rightarrow> InvoiceRepository \<Rightarrow> AddInvoiceActivityRequest \<Rightarrow> world \<Rightarrow> (error + uuid) \<times> world" where
  "invoiceServiceImpl_AddInvoiceActivity E repo activity w =
     (case uuid_Parse E (aar_InvoiceID activity) of
        None \<Rightarrow> (Inl (Errorf ''invalid invoice id''), w)
      | Some invoiceID \<Rightarrow>
     (case uuid_Parse E (aar_UserID activity) of
        None \<Rightarrow> (Inl (Errorf ''invalid user id''), w)
      | Some userID \<Rightarrow>
     (case uuid_New E (rng w) of (activityID, g) \<Rightarrow>
        InvoiceRepository_AddInvoiceActivity repo
          \<lparr>iac_ActivityID = activityID, iac_InvoiceID = invoiceID, iac_UserID = userID,
           iac_Title = aar_Title activity, iac_Description = aar_Description activity,
           iac_CreatedAt = 0\<rparr>
          (w\<lparr>rng := g\<rparr>))))"

definition invoiceServiceImpl_GetTotalByStatus ::
  "InvoiceRepository \<Rightarrow> string \<Rightarrow> world \<Rightarrow> (error + float64 \<times> int) \<times> world" where
  "invoiceServiceImpl_GetTotalByStatus repo status w =
     InvoiceRepository_GetTotalByStatus repo status w"

text \<open>The three paginated reads: \<open>offset := (page - 1) * limit\<close> on \<open>int32\<close>.\<close>

definition invoiceServiceImpl_GetRecentInvoices ::
  "InvoiceRepository \<Rightarrow> uuid \<Rightarrow> int32 \<Rightarrow> int32 \<Rightarrow> world \<Rightarrow> (error + Invoice list) \<times> world" where
  "invoiceServiceImpl_GetRecentInvoices repo senderID page limit w =
     (let offset = (page - 1) * limit
      in InvoiceRepository_GetRecentInvoices repo senderID limit offset w)"

definition invoiceServiceImpl_GetRecentActivities ::
  "InvoiceRepository \<Rightarrow> uuid \<Rightarrow> int32 \<Rightarrow> int32 \<Rightarrow> world
     \<Rightarrow> (error + RecentActivity list) \<times> world" where
  "invoiceServiceImpl_GetRecentActivities repo userID page limit w =
     (let offset = (page - 1) * limit
      in InvoiceRepository_GetRecentActivities repo userID limit offset w)"

definition invoiceServiceImpl_GetInvoiceActivities ::
  "InvoiceRepository \<Rightarrow> uuid \<Rightarrow> uuid \<Rightarrow> int32 \<Rightarrow> int32 \<Rightarrow> world
     \<Rightarrow> (error + InvoiceActivity list) \<times> world" where
  "invoiceServiceImpl_GetInvoiceActivities repo userID invoiceID page limit w =
     (let offset = (page - 1) * limit
      in InvoiceRepository_GetInvoiceActivities repo userID invoiceID limit offset w)"

definition newInvoiceServiceImpl :: "env \<Rightarrow> InvoiceRepository \<Rightarrow> InvoiceService" where
  "newInvoiceServiceImpl E repo =
     \<lparr>InvoiceService_CreateInvoice = invoiceServiceImpl_CreateInvoice E repo,
      InvoiceService_GetInvoiceDetails = invoiceServiceImpl_GetInvoiceDetails repo,
      InvoiceService_AddInvoiceActivity = invoiceServiceImpl_AddInvoiceActivity E repo,
      InvoiceService_GetTotalByStatus = invoiceServiceImpl_GetTotalByStatus repo,
      InvoiceService_GetRecentInvoices = invoiceServiceImpl_GetRecentInvoices repo,
      InvoiceService_GetRecentActivities = invoiceServiceImpl_GetRecentActivities repo,
      InvoiceService_GetInvoiceActivities = invoiceServiceImpl_GetInvoiceActivities repo\<rparr>"

section \<open>service/user.go\<close>

definition userServiceImpl_AddPaymentMethod ::
  "env \<Rightarrow> UserRepository \<Rightarrow> AddPaymentMethodRequest \<Rightarrow> world \<Rightarrow> (error + uuid) \<times> world" where
  "userServiceImpl_AddPaymentMethod E repo data w =
     (case uuid_Parse E (apr_UserID data) of
        None \<Rightarrow> (Inl (Errorf ''invalid invoice id''), w)
      | Some userID \<Rightarrow>
     (case uuid_New E (rng w) of (paymentMethodID, g) \<Rightarrow>
        UserRepository_AddPaymentMethod repo
          \<lparr>upm_PaymentMethodID = paymentMethodID, upm_UserID = userID,
           upm_AccountName = apr_AccountName data, upm_AccountNumber = apr_AccountNumber data,
           upm_BankName = apr_BankName data, upm_BankAddress = apr_BankAddress data,
           upm_SwiftCode = apr_SwiftCode data, upm_IsDefault = False,
           upm_CreatedAt = 0, upm_UpdatedAt = 0\<rparr>
          (w\<lparr>rng := g\<rparr>)))"

section \<open>controller/handler_impl.go\<close>

text \<open>
  What a handler reads from the \<open>gin.Context\<close>: the path parameters and the query string,
  each key with its first value. \<open>Param\<close> gives the empty string for a missing key,
  \<open>DefaultQuery\<close> the default for a missing key. A response is a status code and a JSON
  body.
\<close>

record Context =
  Params :: "string \<rightharpoonup> string"
  QueryValues :: "string \<rightharpoonup> string"

definition Param :: "Context \<Rightarrow> string \<Rightarrow> string" where
  "Param ctx key = (case Params ctx key of None \<Rightarrow> [] | Some v \<Rightarrow> v)"

definition DefaultQuery :: "Context \<Rightarrow> string \<Rightarrow> string \<Rightarrow> string" where
  "DefaultQuery ctx key defaultValue =
     (case QueryValues ctx key of None \<Rightarrow> defaultValue | Some v \<Rightarrow> v)"

datatype body =
    ErrorBody string
  | InvoicesBody "Invoice list"
  | RecentActivitiesBody "RecentActivity list"
  | InvoiceActivitiesBody "InvoiceActivity list"

definition StatusOK :: nat where "StatusOK = 200"
definition StatusBadRequest :: nat where "StatusBadRequest = 400"
definition StatusInternalServerError :: nat where "StatusInternalServerError = 500"

definition getPaginationParams :: "Context \<Rightarrow> int32 \<times> int32" where
  "getPaginationParams ctx =
     (let limitStr = DefaultQuery ctx ''limit'' ''10'';
          pageStr = DefaultQuery ctx ''page'' ''1'';
          limit = (case ParseInt limitStr of Inl err \<Rightarrow> 10 | Inr limit64 \<Rightarrow> word_of_int limit64);
          page = (case ParseInt pageStr of Inl err \<Rightarrow> 1 | Inr page64 \<Rightarrow> word_of_int page64)
      in (limit, page))"

definition handlerImpl_GetRecentInvoices ::
  "env \<Rightarrow> InvoiceService \<Rightarrow> Context \<Rightarrow> world \<Rightarrow> (nat \<times> body) \<times> world" where
  "handlerImpl_GetRecentInvoices E service ctx w =
     (case uuid_Parse E (Param ctx ''senderID'') of
        None \<Rightarrow> ((StatusBadRequest, ErrorBody ''Invalid sender ID''), w)
      | Some senderID \<Rightarrow>
     (case getPaginationParams ctx of (limit, page) \<Rightarrow>
     (case InvoiceService_GetRecentInvoices service senderID page limit w of
        (Inl err, w') \<Rightarrow> ((StatusInternalServerError, ErrorBody (Error err)), w')
      | (Inr rows, w') \<Rightarrow> ((StatusOK, InvoicesBody rows), w'))))"

definition handlerImpl_GetRecentActivities ::
  "env \<Rightarrow> InvoiceService \<Rightarrow> Context \<Rightarrow> world \<Rightarrow> (nat \<times> body) \<times> world" where
  "handlerImpl_GetRecentActivities E service ctx w =
     (case uuid_Parse E (Param ctx ''userID'') of
        None \<Rightarrow> ((StatusBadRequest, ErrorBody ''Invalid user ID''), w)
      | Some userID \<Rightarrow>
     (case getPaginationParams ctx of (limit, page) \<Rightarrow>
     (case InvoiceService_GetRecentActivities service userID page limit w of
        (Inl err, w') \<Rightarrow> ((StatusInternalServerError, ErrorBody (Error err)), w')
      | (Inr rows, w') \<Rightarrow> ((StatusOK, RecentActivitiesBody rows), w'))))"

definition handlerImpl_GetInvoiceActivities ::
  "env \<Rightarrow> InvoiceService \<Rightarrow> Context \<Rightarrow> world \<Rightarrow> (nat \<times> body) \<times> world" where
  "handlerImpl_GetInvoiceActivities E service ctx w =
     (case uuid_Parse E (Param ctx ''userID'') of
        None \<Rightarrow> ((StatusBadRequest, ErrorBody ''Invalid user ID''), w)
      | Some userID \<Rightarrow>
     (case uuid_Parse E (Param ctx ''invoiceID'') of
        None \<Rightarrow> ((StatusBadRequest, ErrorBody ''Invalid invoice ID''), w)
      | Some invoiceID \<Rightarrow>
     (case getPaginationParams ctx of (limit, page) \<Rightarrow>
     (case InvoiceService_GetInvoiceActivities service userID invoiceID page limit w of
        (Inl err, w') \<Rightarrow> ((StatusInternalServerError, ErrorBody (Error err)), w')
      | (Inr rows, w') \<Rightarrow> ((StatusOK, InvoiceActivitiesBody rows), w')))))"

section \<open>A sample environment and sample data\<close>

text \<open>
  One environment among those the theorems quantify over, for the concrete runs below. Its
  \<open>uuid.Parse\<close> reads the canonical form of 32 hexadecimal digits in groups of 8, 4, 4, 4
  and 12; its \<open>time.Parse\<close> reads \<open>YYYY-MM-DD\<close> with a month from 1 to 12 and a day from 1
  to 31; its random draws count upwards; its connection never fails.
\<close>

definition hex_val :: "char \<Rightarrow> nat option" where
  "hex_val c =
     (let n = (of_char c :: nat)
      in if 48 \<le> n \<and> n \<le> 57 then Some (n - 48)
         else if 97 \<le> n \<and> n \<le> 102 then Some (n - 87)
         else if 65 \<le> n \<and> n \<le> 70 then Some (n - 55)
         else None)"

fun hex_fold :: "nat \<Rightarrow> string \<Rightarrow> nat option" where
  "hex_fold acc [] = Some acc"
| "hex_fold acc (c # cs) =
     (case hex_val c of None \<Rightarrow> None | Some d \<Rightarrow> hex_fold (acc * 16 + d) cs)"

definition sample_uuid_Parse :: "string \<Rightarrow> uuid option" where
  "sample_uuid_Parse s =
     (if length s = 36 \<and> map (\<lambda>k. s ! k) [8, 13, 18, 23] = ''----''
      then map_option word_of_nat (hex_fold 0 (filter (\<lambda>c. c \<noteq> CHR ''-'') s))
      else None)"

definition sample_time_Parse :: "string \<Rightarrow> string \<Rightarrow> time option" where
  "sample_time_Parse lay s =
     (if lay = ''2006-01-02'' \<and> length s = 10 \<and> s ! 4 = CHR ''-'' \<and> s ! 7 = CHR ''-''
      then (case (ParseUint (take 4 s), ParseUint (take 2 (drop 5 s)), ParseUint (drop 8 s)) of
              (Inr y, Inr m, Inr d) \<Rightarrow>
                if 1 \<le> m \<and> m \<le> 12 \<and> 1 \<le> d \<and> d \<le> 31
                then Some (int (y * 10000 + m * 100 + d)) else None
            | _ \<Rightarrow> None)
      else None)"

definition sample_env :: env where
  "sample_env =
     \<lparr>uuid_Parse = sample_uuid_Parse,
      uuid_New = (\<lambda>g. (word_of_nat g, Suc g)),
      time_Parse = sample_time_Parse,
      Int63n = (\<lambda>n g. (int g mod n, Suc g)),
      fault = (\<lambda>q. None)\<rparr>"

text \<open>The same environment with a connection that fails the commit.\<close>

definition commit_fails_env :: env where
  "commit_fails_env =
     sample_env\<lparr>fault := (\<lambda>q. case q of Commit \<Rightarrow> Some (ConnError ''conn closed'') | _ \<Rightarrow> None)\<rparr>"

text \<open>
  A database with one user (identifier 1), one customer (2), one payment method of the
  user (3) and nothing else, and a world on it.
\<close>

definition sample_user :: User where
  "sample_user =
     \<lparr>usr_UserID = 1, usr_Username = ''ada'', usr_Email = ''ada@example.com'',
      usr_Password = ''$2a$10$hash'', usr_FirstName = ''Ada'', usr_LastName = ''Obi'',
      usr_ProfilePictureURL = [], usr_PhoneNumber = ''0800'', usr_Address = ''Lagos'',
      usr_CreatedAt = 5, usr_UpdatedAt = 5\<rparr>"

definition sample_customer :: Customer where
  "sample_customer =
     \<lparr>cus_CustomerID = 2, cus_Name = ''Bayo'', cus_Email = ''bayo@example.com'',
      cus_PhoneNumber = ''0900'', cus_Address = ''Abuja'', cus_CreatedAt = 6, cus_UpdatedAt = 6\<rparr>"

definition sample_payment_method :: UserPaymentMethod where
  "sample_payment_method =
     \<lparr>upm_PaymentMethodID = 3, upm_UserID = 1, upm_AccountName = ''Ada Obi'',
      upm_AccountNumber = ''0123456789'', upm_BankName = ''First Bank'',
      upm_BankAddress = ''Marina'', upm_SwiftCode = ''FBNINGLA'', upm_IsDefault = False,
      upm_CreatedAt = 7, upm_UpdatedAt = 7\<rparr>"

definition sample_db :: database where
  "sample_db =
     \<lparr>users = [sample_user], customers = [sample_customer], invoices = [],
      invoice_items = [], user_payment_methods = [sample_payment_method],
      payment_information = [], invoice_activities = [], recent_activities = [], now = 50\<rparr>"

definition sample_world :: world where
  "sample_world = \<lparr>rng = 100, store = sample_db\<rparr>"

text \<open>An invoice of the sample user for the sample customer, with a given identifier, status and final amount.\<close>

definition sample_invoice :: "uuid \<Rightarrow> string \<Rightarrow> string \<Rightarrow> float64 \<Rightarrow> Invoice" where
  "sample_invoice invoiceID number status final =
     \<lparr>inv_InvoiceID = invoiceID, inv_InvoiceNumber = number, inv_SenderID = 1,
      inv_CustomerID = 2, inv_IssueDate = 20240105, inv_DueDate = 20240205,
      inv_TotalAmount = 10000, inv_DiscountPercentage = 10, inv_DiscountedAmount = 1000,
      inv_FinalAmount = final, inv_Status = status, inv_Currency = ''NGN'',
      inv_Notes = ''Thanks'', inv_CreatedAt = 20, inv_UpdatedAt = 20\<rparr>"

text \<open>
  Repositories that run no checks and add a row to the database whenever a writing method
  is called, as a recording mock does.
\<close>

definition recording_UserRepository :: UserRepository where
  "recording_UserRepository =
     \<lparr>UserRepository_CreateUser =
        (\<lambda>u w. (Inr (usr_UserID u), w\<lparr>store := (store w)\<lparr>users := users (store w) @ [u]\<rparr>\<rparr>)),
      UserRepository_AddCustomer =
        (\<lambda>c w. (Inr (cus_CustomerID c),
                 w\<lparr>store := (store w)\<lparr>customers := customers (store w) @ [c]\<rparr>\<rparr>)),
      UserRepository_AddPaymentMethod =
        (\<lambda>m w. (Inr (upm_PaymentMethodID m),
                 w\<lparr>store := (store w)\<lparr>user_payment_methods :=
                                          user_payment_methods (store w) @ [m]\<rparr>\<rparr>))\<rparr>"

text \<open>Requests for the concrete runs.\<close>

definition sample_payment_request :: "string \<Rightarrow> AddPaymentMethodRequest" where
  "sample_payment_request userID =
     \<lparr>apr_UserID = userID, apr_AccountName = ''Ada Obi'', apr_AccountNumber = ''0123456789'',
      apr_BankName = ''First Bank'', apr_BankAddress = ''Marina'', apr_SwiftCode = ''FBNINGLA''\<rparr>"

definition sample_list_ctx :: "string \<Rightarrow> string \<Rightarrow> Context" where
  "sample_list_ctx limitStr pageStr =
     \<lparr>Params = [''senderID'' \<mapsto> ''00000000-0000-0000-0000-000000000001'',
                ''userID'' \<mapsto> ''00000000-0000-0000-0000-000000000001'',
                ''invoiceID'' \<mapsto> ''00000000-0000-0000-0000-000000000009''],
      QueryValues = [''limit'' \<mapsto> limitStr, ''page'' \<mapsto> pageStr]\<rparr>"

definition sample_limit_only_ctx :: "string \<Rightarrow> Context" where
  "sample_limit_only_ctx limitStr =
     \<lparr>Params = [''senderID'' \<mapsto> ''00000000-0000-0000-0000-000000000001''],
      QueryValues = [''limit'' \<mapsto> limitStr]\<rparr>"

definition sample_page_only_ctx :: "string \<Rightarrow> Context" where
  "sample_page_only_ctx pageStr =
     \<lparr>Params = [''senderID'' \<mapsto> ''00000000-0000-0000-0000-000000000001''],
      QueryValues = [''page'' \<mapsto> pageStr]\<rparr>"

text \<open>The sample database with three invoices: two paid, one pending.\<close>

definition sample_ledger_world :: world where
  "sample_ledger_world =
     \<lparr>rng = 100,
      store = sample_db\<lparr>invoices :=
        [sample_invoice 11 ''1000000001'' ''paid'' 9000,
         sample_invoice 12 ''1000000002'' ''pending'' 40,
         sample_invoice 13 ''1000000003'' ''paid'' (1001 / 2)]\<rparr>\<rparr>"

text \<open>
  Arguments for a call of the repository's \<open>CreateInvoice\<close>: invoice 10 of the sample user
  with two items and the sample payment method; and the sample world with a recent-activity
  row that already has the identifier the next random draw gives.
\<close>

definition sample_items :: "InvoiceItem list" where
  "sample_items =
     [\<lparr>itm_ItemID = 21, itm_InvoiceID = 10, itm_Name = ''Item 1'',
       itm_Description = ''Description 1'', itm_Quantity = 1, itm_UnitPrice = 100,
       itm_TotalPrice = 100, itm_CreatedAt = 0, itm_UpdatedAt = 0\<rparr>,
      \<lparr>itm_ItemID = 22, itm_InvoiceID = 10, itm_Name = ''Item 2'',
       itm_Description = ''Description 2'', itm_Quantity = 3, itm_UnitPrice = 20,
       itm_TotalPrice = 75, itm_CreatedAt = 0, itm_UpdatedAt = 0\<rparr>]"

definition sample_payment_info :: PaymentInformation where
  "sample_payment_info =
     \<lparr>pin_PaymentInfoID = 30, pin_InvoiceID = 10, pin_PaymentMethodID = 3,
      pin_CreatedAt = 0, pin_UpdatedAt = 0\<rparr>"

definition clash_world :: world where
  "clash_world =
     \<lparr>rng = 100,
      store = sample_db\<lparr>recent_activities :=
        [\<lparr>rac_ActivityID = 100, rac_UserID = 1, rac_Title = ''Earlier'',
          rac_Description = ''An earlier entry'', rac_CreatedAt = 40\<rparr>]\<rparr>\<rparr>"

text \<open>
  The row that an insert of an item stores: the item as the columns hold it, under the
  invoice's identifier, with the timestamps of the insert.
\<close>

definition stamp_item :: "uuid \<Rightarrow> time \<Rightarrow> InvoiceItem \<Rightarrow> InvoiceItem" where
  "stamp_item invoiceID t item =
     (as_invoice_items_row item)\<lparr>itm_InvoiceID := invoiceID, itm_CreatedAt := t, itm_UpdatedAt := t\<rparr>"

text \<open>
  A creation request with two items. Its amounts do not fit together on purpose: the
  final amount is not the total less the discount, and the second item's total price is
  not quantity times unit price.
\<close>

definition sample_create_request ::
  "string \<Rightarrow> string \<Rightarrow> string \<Rightarrow> string \<Rightarrow> string \<Rightarrow> string \<Rightarrow> CreateInvoiceRequest" where
  "sample_create_request sender customer status issue due method =
     \<lparr>req_Invoice =
        \<lparr>inf_SenderID = sender, inf_IssueDate = issue, inf_DueDate = due,
         inf_TotalAmount = 10000, inf_DiscountPercentage = 10, inf_DiscountedAmount = 1000,
         inf_FinalAmount = 8500, inf_Status = status, inf_Currency = ''NGN'',
         inf_Notes = ''Thanks''\<rparr>,
      req_CustomerID = customer,
      req_PaymentMethodID = method,
      req_InvoiceItems =
        [\<lparr>iid_Name = ''Item 1'', iid_Description = ''Description 1'', iid_Quantity = 1,
          iid_UnitPrice = 100, iid_TotalPrice = 100\<rparr>,
         \<lparr>iid_Name = ''Item 2'', iid_Description = ''Description 2'', iid_Quantity = 3,
          iid_UnitPrice = 20, iid_TotalPrice = 75\<rparr>]\<rparr>"

definition id1 :: string where "id1 = ''00000000-0000-0000-0000-000000000001''"
definition id2 :: string where "id2 = ''00000000-0000-0000-0000-000000000002''"
definition id3 :: string where "id3 = ''00000000-0000-0000-0000-000000000003''"

text \<open>
  The request whose first \<open>k\<close> checked fields (sender, customer, status, issue date, due
  date, payment method, in this order) are valid and whose other checked fields are not.
\<close>

definition valid_upto :: "nat \<Rightarrow> CreateInvoiceRequest" where
  "valid_upto k =
     sample_create_request
       (if 0 < k then id1 else ''sender-x'')
       (if 1 < k then id2 else ''customer-x'')
       (if 2 < k then ''paid'' else ''PAID'')
       (if 3 < k then ''2024-01-05'' else ''05/01/2024'')
       (if 4 < k then ''2024-02-05'' else ''2024-02-5'')
       (if 5 < k then id3 else ''method-x'')"


text \<open>
  An invoice repository that runs no checks: its writing methods add the row they are
  given, its reading methods return nothing.
\<close>

definition recording_InvoiceRepository :: InvoiceRepository where
  "recording_InvoiceRepository =
     \<lparr>InvoiceRepository_GetTotalByStatus = (\<lambda>status w. (Inr (0, 0), w)),
      InvoiceRepository_CreateInvoice =
        (\<lambda>invoice items customerID paymentInfo w.
           (Inr (inv_InvoiceID invoice),
            w\<lparr>store := (store w)\<lparr>invoices := invoices (store w) @ [invoice]\<rparr>\<rparr>)),
      InvoiceRepository_GetInvoiceDetails = (\<lambda>invoiceID w. (Inl ErrNoRows, w)),
      InvoiceRepository_AddInvoiceActivity =
        (\<lambda>activity w.
           (Inr (iac_ActivityID activity),
            w\<lparr>store := (store w)\<lparr>invoice_activities :=
                                     invoice_activities (store w) @ [activity]\<rparr>\<rparr>)),
      InvoiceRepository_GetRecentInvoices = (\<lambda>senderID limit offset w. (Inr [], w)),
      InvoiceRepository_GetRecentActivities = (\<lambda>userID limit offset w. (Inr [], w)),
      InvoiceRepository_GetInvoiceActivities = (\<lambda>userID invoiceID limit offset w. (Inr [], w))\<rparr>"

text \<open>
  The three invoices again, with a payment-information row for invoice 12 only.
\<close>

definition sample_details_world :: world where
  "sample_details_world =
     sample_ledger_world\<lparr>store := (store sample_ledger_world)\<lparr>payment_information :=
       [\<lparr>pin_PaymentInfoID = 31, pin_InvoiceID = 12, pin_PaymentMethodID = 3,
         pin_CreatedAt = 20, pin_UpdatedAt = 20\<rparr>]\<rparr>\<rparr>"

section \<open>Properties\<close>

subsection \<open>Status validation\<close>

lemmas InvoiceStatus_defs =
  InvoiceStatusPaid_def InvoiceStatusOverDue_def InvoiceStatusDraft_def InvoiceStatusPending_def

lemma sublist_after_prefix: "sublist s (p @ s)"
  using sublist_appendI [of s p "[]"] by simp

lemma ValidateInvoiceStatus_accept:
  "(ValidateInvoiceStatus s = None) = (s \<in> {''draft'', ''pending'', ''paid'', ''overdue''})"
  by (auto simp: ValidateInvoiceStatus_def InvoiceStatus_defs)

lemma ValidateInvoiceStatus_reject:
  "s \<notin> {''draft'', ''pending'', ''paid'', ''overdue''} \<Longrightarrow>
   ValidateInvoiceStatus s = Some (Errorf (''invalid invoice status: '' @ s))"
  by (auto simp: ValidateInvoiceStatus_def InvoiceStatus_defs)

text \<open>
  C5. Status validation accepts a string exactly when it is one of \<open>draft\<close>, \<open>pending\<close>,
  \<open>paid\<close>, \<open>overdue\<close>, byte for byte; every other string, \<open>PAID\<close> and \<open> paid \<close> among
  them, is rejected with the message \<open>invalid invoice status: \<close> followed by the rejected
  string itself, so the message contains that exact string.
\<close>

theorem ValidateInvoiceStatus_iff:
  "(ValidateInvoiceStatus s = None) = (s \<in> {''draft'', ''pending'', ''paid'', ''overdue''})
   \<and> (s \<notin> {''draft'', ''pending'', ''paid'', ''overdue''} \<longrightarrow>
        (\<exists>e. ValidateInvoiceStatus s = Some e
           \<and> Error e = ''invalid invoice status: '' @ s \<and> sublist s (Error e)))
   \<and> ValidateInvoiceStatus ''PAID'' = Some (Errorf ''invalid invoice status: PAID'')
   \<and> ValidateInvoiceStatus '' paid '' = Some (Errorf ''invalid invoice status:  paid '')"
proof (intro conjI impI)
  show "(ValidateInvoiceStatus s = None) = (s \<in> {''draft'', ''pending'', ''paid'', ''overdue''})"
    by (rule ValidateInvoiceStatus_accept)
next
  assume rej: "s \<notin> {''draft'', ''pending'', ''paid'', ''overdue''}"
  let ?e = "Errorf (''invalid invoice status: '' @ s)"
  have "ValidateInvoiceStatus s = Some ?e"
    using rej by (rule ValidateInvoiceStatus_reject)
  moreover have "Error ?e = ''invalid invoice status: '' @ s"
    by (simp only: Error.simps)
  moreover have "sublist s (Error ?e)"
    unfolding Error.simps by (rule sublist_after_prefix)
  ultimately show "\<exists>e. ValidateInvoiceStatus s = Some e
           \<and> Error e = ''invalid invoice status: '' @ s \<and> sublist s (Error e)"
    by blast
next
  show "ValidateInvoiceStatus ''PAID'' = Some (Errorf ''invalid invoice status: PAID'')"
    by (simp add: ValidateInvoiceStatus_def InvoiceStatus_defs)
next
  show "ValidateInvoiceStatus '' paid '' = Some (Errorf ''invalid invoice status:  paid '')"
    by (simp add: ValidateInvoiceStatus_def InvoiceStatus_defs)
qed

theorem ValidateInvoiceStatus_iff_witness:
  "''Paid'' \<notin> {''draft'', ''pending'', ''paid'', ''overdue''}
   \<and> (\<exists>e. ValidateInvoiceStatus ''Paid'' = Some e
          \<and> Error e = ''invalid invoice status: Paid'' \<and> sublist ''Paid'' (Error e))"
  using ValidateInvoiceStatus_iff [of "''Paid''"] by simp

subsection \<open>Evaluation of the sample data\<close>

lemmas sample_parse_defs =
  sample_env_def sample_uuid_Parse_def hex_val_def Param_def

lemmas strconv_defs =
  ParseInt_def ParseUint_def is_digit_def digit_val_def FormatInt_def FormatUint.simps digit_char_def

subsection \<open>Payment-method registration\<close>

text \<open>
  C10. When the user identifier of an add-payment-method request does not parse, the
  operation returns the error whose message is exactly \<open>invalid invoice id\<close> (the message
  names an invoice although the user identifier failed). The result does not depend on the
  repository and the state is the one before the call: no repository method has run.
\<close>

theorem AddPaymentMethod_invalid_user_id:
  "uuid_Parse E (apr_UserID data) = None \<Longrightarrow>
   userServiceImpl_AddPaymentMethod E repo data w = (Inl (Errorf ''invalid invoice id''), w)
   \<and> (\<exists>e. fst (userServiceImpl_AddPaymentMethod E repo data w) = Inl e
          \<and> Error e = ''invalid invoice id'')"
  by (simp add: userServiceImpl_AddPaymentMethod_def)

theorem AddPaymentMethod_invalid_user_id_witness:
  "uuid_Parse sample_env (apr_UserID (sample_payment_request ''user-1'')) = None
   \<and> userServiceImpl_AddPaymentMethod sample_env recording_UserRepository
        (sample_payment_request ''user-1'') sample_world
      = (Inl (Errorf ''invalid invoice id''), sample_world)"
proof -
  have h: "uuid_Parse sample_env (apr_UserID (sample_payment_request ''user-1'')) = None"
    by (simp add: sample_env_def sample_payment_request_def sample_uuid_Parse_def)
  from AddPaymentMethod_invalid_user_id [OF h] h show ?thesis by blast
qed

subsection \<open>Pagination: the offset\<close>

lemma sint_offset:
  fixes page limit :: int32
  assumes "- (2 ^ 31) \<le> (sint page - 1) * sint limit" "(sint page - 1) * sint limit < 2 ^ 31"
  shows "sint ((page - 1) * limit) = (sint page - 1) * sint limit"
proof -
  have l: "signed_take_bit 31 (sint limit) = sint limit"
    using sint_ge [of limit] sint_lt [of limit] by (simp add: signed_take_bit_int_eq_self)
  have "sint ((page - 1) * limit) = signed_take_bit 31 (sint (page - 1) * sint limit)"
    by (simp add: sint_word_ariths)
  also have "sint (page - 1) = signed_take_bit 31 (sint page - 1)"
    by (simp add: sint_word_ariths)
  also have "signed_take_bit 31 (signed_take_bit 31 (sint page - 1) * sint limit)
             = signed_take_bit 31 ((sint page - 1) * sint limit)"
    using signed_take_bit_mult [of 31 "sint page - 1" "sint limit"] by (simp only: l)
  also have "\<dots> = (sint page - 1) * sint limit"
    using assms by (simp add: signed_take_bit_int_eq_self)
  finally show ?thesis .
qed

text \<open>
  C4, as stated, fails where the product leaves 32 bits. Page 3 with limit 1073741824 is a
  page of at least 1, the integer \<open>(3 - 1) * 1073741824\<close> is 2147483648, and the offset the
  repository receives is the \<open>int32\<close> product, -2147483648; the query of the repository
  then fails on the negative offset.
\<close>

theorem pagination_offset_counterexample:
  "1 \<le> sint (3 :: int32)
   \<and> invoiceServiceImpl_GetRecentInvoices (newInvoiceRepoImpl sample_env) 1 3 1073741824 sample_world
      = InvoiceRepository_GetRecentInvoices (newInvoiceRepoImpl sample_env) 1 1073741824
          (word_of_int (- 2147483648)) sample_world
   \<and> sint (word_of_int (- 2147483648) :: int32) \<noteq> (sint (3 :: int32) - 1) * sint (1073741824 :: int32)
   \<and> fst (invoiceServiceImpl_GetRecentInvoices (newInvoiceRepoImpl sample_env) 1 3 1073741824
            sample_world)
      = Inl (PgError ''OFFSET must not be negative'')"
  by (simp add: invoiceServiceImpl_GetRecentInvoices_def newInvoiceRepoImpl_def
      invoiceRepoImpl_GetRecentInvoices_def sample_env_def limit_offset_def)

text \<open>
  C4, amended. For every identifier, page and limit, each of the three paginated reads
  calls its repository method with the caller's limit unchanged and with the offset
  \<open>(page - 1) * limit\<close> computed on \<open>int32\<close>, which wraps around. Whenever the integer
  product \<open>(page - 1) * limit\<close> lies between \<open>-2^31\<close> and \<open>2^31 - 1\<close>, the offset is that
  integer. Page 1 gives offset 0, and page 2 with limit 10 gives offset 10.
\<close>

theorem pagination_offset_int32:
  "invoiceServiceImpl_GetRecentInvoices repo senderID page limit w
     = InvoiceRepository_GetRecentInvoices repo senderID limit ((page - 1) * limit) w
   \<and> invoiceServiceImpl_GetRecentActivities repo userID page limit w
     = InvoiceRepository_GetRecentActivities repo userID limit ((page - 1) * limit) w
   \<and> invoiceServiceImpl_GetInvoiceActivities repo userID invoiceID page limit w
     = InvoiceRepository_GetInvoiceActivities repo userID invoiceID limit ((page - 1) * limit) w
   \<and> (- (2 ^ 31) \<le> (sint page - 1) * sint limit \<and> (sint page - 1) * sint limit < 2 ^ 31
        \<longrightarrow> sint ((page - 1) * limit) = (sint page - 1) * sint limit)
   \<and> (1 - 1) * limit = 0
   \<and> (2 - 1) * (10 :: int32) = 10"
  by (simp add: invoiceServiceImpl_GetRecentInvoices_def invoiceServiceImpl_GetRecentActivities_def
      invoiceServiceImpl_GetInvoiceActivities_def sint_offset)

theorem pagination_offset_int32_witness:
  "- (2 ^ 31) \<le> (sint (2 :: int32) - 1) * sint (10 :: int32)
   \<and> (sint (2 :: int32) - 1) * sint (10 :: int32) < 2 ^ 31
   \<and> sint ((2 - 1) * 10 :: int32) = (sint (2 :: int32) - 1) * sint (10 :: int32)
   \<and> invoiceServiceImpl_GetRecentInvoices (newInvoiceRepoImpl sample_env) 1 2 10 sample_world
     = InvoiceRepository_GetRecentInvoices (newInvoiceRepoImpl sample_env) 1 10 ((2 - 1) * 10)
         sample_world"
proof -
  have h: "- (2 ^ 31) \<le> (sint (2 :: int32) - 1) * sint (10 :: int32)
           \<and> (sint (2 :: int32) - 1) * sint (10 :: int32) < 2 ^ 31"
    by simp
  from pagination_offset_int32 [of "newInvoiceRepoImpl sample_env" 1 2 10 sample_world] h
  show ?thesis by blast
qed

subsection \<open>Pagination: the query parameters\<close>

lemma below_ten: "d < 10 \<Longrightarrow> d \<in> {0, 1, 2, 3, 4, 5, 6, 7, 8, 9::nat}"
  by auto

lemma digit_char_is_digit: "d < 10 \<Longrightarrow> is_digit (digit_char d)"
  by (drule below_ten) (auto simp: is_digit_def digit_char_def)

lemma digit_val_digit_char: "d < 10 \<Longrightarrow> digit_val (digit_char d) = d"
  by (drule below_ten) (auto simp: digit_val_def digit_char_def)

lemma ParseUint_loop_snoc:
  "ParseUint_loop acc (xs @ [c]) =
     (case ParseUint_loop acc xs of
        Inl e \<Rightarrow> Inl e
      | Inr m \<Rightarrow> ParseUint_loop m [c])"
  by (induction xs arbitrary: acc) simp_all

lemma FormatUint_nonempty: "FormatUint n \<noteq> []"
  by (subst FormatUint.simps) simp

lemma FormatUint_digits: "list_all is_digit (FormatUint n)"
proof (induction n rule: FormatUint.induct)
  case (1 n)
  show ?case
  proof (cases "n < 10")
    case True
    then show ?thesis by (subst FormatUint.simps) (simp add: digit_char_is_digit)
  next
    case False
    with 1 show ?thesis by (subst FormatUint.simps) (simp add: digit_char_is_digit)
  qed
qed

lemma ParseUint_loop_FormatUint:
  "n \<le> 2 ^ 32 - 1 \<Longrightarrow> ParseUint_loop 0 (FormatUint n) = Inr n"
proof (induction n rule: FormatUint.induct)
  case (1 n)
  show ?case
  proof (cases "n < 10")
    case True
    then show ?thesis
      by (subst FormatUint.simps) (simp add: digit_char_is_digit digit_val_digit_char)
  next
    case False
    have "n div 10 \<le> 2 ^ 32 - 1" using "1.prems" by simp
    with 1 False have ih: "ParseUint_loop 0 (FormatUint (n div 10)) = Inr (n div 10)" by simp
    have d: "n mod 10 < 10" by simp
    show ?thesis
      using False "1.prems"
      by (subst FormatUint.simps)
         (simp add: ParseUint_loop_snoc ih digit_char_is_digit [OF d] digit_val_digit_char [OF d])
  qed
qed

lemma ParseUint_FormatUint: "n \<le> 2 ^ 32 - 1 \<Longrightarrow> ParseUint (FormatUint n) = Inr n"
  by (simp add: ParseUint_def FormatUint_nonempty ParseUint_loop_FormatUint)

lemma is_digit_not_sign: "is_digit c \<Longrightarrow> c \<noteq> CHR ''+'' \<and> c \<noteq> CHR ''-''"
  by (auto simp: is_digit_def)

lemma ParseInt_FormatInt:
  assumes "- (2 ^ 31) \<le> n" "n < 2 ^ 31"
  shows "ParseInt (FormatInt n) = Inr n"
proof (cases "n < 0")
  case True
  have "nat (- n) \<le> 2 ^ 31" using assms True by simp
  then have u: "ParseUint (FormatUint (nat (- n))) = Inr (nat (- n))"
    by (intro ParseUint_FormatUint) simp
  show ?thesis using True assms
    by (simp add: ParseInt_def FormatInt_def u)
next
  case False
  obtain c cs where s: "FormatUint (nat n) = c # cs"
    using FormatUint_nonempty [of "nat n"] by (cases "FormatUint (nat n)") auto
  have "is_digit c" using FormatUint_digits [of "nat n"] s by simp
  then have c: "c \<noteq> CHR ''+''" "c \<noteq> CHR ''-''" using is_digit_not_sign by auto
  have "nat n \<le> 2 ^ 32 - 1" using assms False by simp
  then have u: "ParseUint (c # cs) = Inr (nat n)"
    using ParseUint_FormatUint [of "nat n"] s by simp
  show ?thesis using False assms c
    by (simp add: ParseInt_def FormatInt_def s u)
qed

lemma ParseUint_loop_FormatUint_large:
  "2 ^ 32 - 1 < n \<Longrightarrow> ParseUint_loop 0 (FormatUint n) = Inl ErrRange"
proof (induction n rule: FormatUint.induct)
  case (1 n)
  from "1.prems" have big: "\<not> n < 10" by simp
  have d: "n mod 10 < 10" by simp
  show ?case
  proof (cases "2 ^ 32 - 1 < n div 10")
    case True
    with 1 big have "ParseUint_loop 0 (FormatUint (n div 10)) = Inl ErrRange" by simp
    with big show ?thesis
      by (subst FormatUint.simps) (simp add: ParseUint_loop_snoc)
  next
    case False
    then have "n div 10 \<le> 2 ^ 32 - 1" by simp
    then have p: "ParseUint_loop 0 (FormatUint (n div 10)) = Inr (n div 10)"
      by (rule ParseUint_loop_FormatUint)
    show ?thesis
      using big "1.prems"
      by (subst FormatUint.simps)
         (simp add: ParseUint_loop_snoc p digit_char_is_digit [OF d] digit_val_digit_char [OF d])
  qed
qed

lemma ParseInt_FormatInt_out_of_range:
  assumes "n < - (2 ^ 31) \<or> 2 ^ 31 \<le> n"
  shows "ParseInt (FormatInt n) = Inl ErrRange"
proof (cases "n < 0")
  case True
  with assms have lt: "n < - (2 ^ 31)" by simp
  show ?thesis
  proof (cases "2 ^ 32 - 1 < nat (- n)")
    case True
    then have "ParseUint (FormatUint (nat (- n))) = Inl ErrRange"
      by (simp add: ParseUint_def FormatUint_nonempty ParseUint_loop_FormatUint_large)
    with \<open>n < 0\<close> show ?thesis by (simp add: ParseInt_def FormatInt_def)
  next
    case False
    then have "nat (- n) \<le> 2 ^ 32 - 1" by simp
    then have "ParseUint (FormatUint (nat (- n))) = Inr (nat (- n))"
      by (rule ParseUint_FormatUint)
    with \<open>n < 0\<close> lt show ?thesis by (simp add: ParseInt_def FormatInt_def)
  qed
next
  case False
  with assms have ge: "2 ^ 31 \<le> n" by simp
  obtain c cs where s: "FormatUint (nat n) = c # cs"
    using FormatUint_nonempty [of "nat n"] by (cases "FormatUint (nat n)") auto
  have "is_digit c" using FormatUint_digits [of "nat n"] s by simp
  then have c: "c \<noteq> CHR ''+''" "c \<noteq> CHR ''-''" using is_digit_not_sign by auto
  show ?thesis
  proof (cases "2 ^ 32 - 1 < nat n")
    case True
    then have "ParseUint (c # cs) = Inl ErrRange"
      using ParseUint_loop_FormatUint_large [of "nat n"] s by (simp add: ParseUint_def)
    with False c show ?thesis by (simp add: ParseInt_def FormatInt_def s)
  next
    case big: False
    then have "nat n \<le> 2 ^ 32 - 1" by simp
    then have "ParseUint (c # cs) = Inr (nat n)"
      using ParseUint_FormatUint [of "nat n"] s by simp
    with False c ge show ?thesis by (simp add: ParseInt_def FormatInt_def s)
  qed
qed

lemma ParseUint_loop_non_digit:
  "\<not> list_all is_digit s \<Longrightarrow> \<exists>e. ParseUint_loop acc s = Inl e"
  by (induction s arbitrary: acc) auto

lemma ParseInt_non_numeric:
  assumes "c \<in> set s" "\<not> is_digit c" "c \<noteq> CHR ''+''" "c \<noteq> CHR ''-''"
  shows "\<exists>e. ParseInt s = Inl e"
proof (cases s)
  case Nil
  then show ?thesis using assms by simp
next
  case (Cons a as)
  let ?s' = "if a = CHR ''+'' \<or> a = CHR ''-'' then as else s"
  have "c \<in> set ?s'" using assms Cons by auto
  then have nd: "\<not> list_all is_digit ?s'" using assms(2) by (auto simp: list_all_iff)
  then have "?s' \<noteq> []" by auto
  with ParseUint_loop_non_digit [OF nd, of 0] obtain e where "ParseUint ?s' = Inl e"
    by (auto simp: ParseUint_def)
  then show ?thesis using Cons by (auto simp: ParseInt_def Let_def)
qed


lemma limit_absent: "QueryValues ctx ''limit'' = None \<Longrightarrow> fst (getPaginationParams ctx) = 10"
  by (simp add: getPaginationParams_def DefaultQuery_def ParseInt_def ParseUint_def is_digit_def
      digit_val_def Let_def)

lemma page_absent: "QueryValues ctx ''page'' = None \<Longrightarrow> snd (getPaginationParams ctx) = 1"
  by (simp add: getPaginationParams_def DefaultQuery_def ParseInt_def ParseUint_def is_digit_def
      digit_val_def Let_def)

lemma limit_unparsed:
  "QueryValues ctx ''limit'' = Some v \<Longrightarrow> ParseInt v = Inl e \<Longrightarrow> fst (getPaginationParams ctx) = 10"
  by (simp add: getPaginationParams_def DefaultQuery_def Let_def)

lemma page_unparsed:
  "QueryValues ctx ''page'' = Some v \<Longrightarrow> ParseInt v = Inl e \<Longrightarrow> snd (getPaginationParams ctx) = 1"
  by (simp add: getPaginationParams_def DefaultQuery_def Let_def)

lemma limit_parsed:
  "QueryValues ctx ''limit'' = Some v \<Longrightarrow> ParseInt v = Inr n \<Longrightarrow>
   fst (getPaginationParams ctx) = word_of_int n"
  by (simp add: getPaginationParams_def DefaultQuery_def Let_def)

lemma page_parsed:
  "QueryValues ctx ''page'' = Some v \<Longrightarrow> ParseInt v = Inr n \<Longrightarrow>
   snd (getPaginationParams ctx) = word_of_int n"
  by (simp add: getPaginationParams_def DefaultQuery_def Let_def)

lemma sint_int32_of_int:
  "- (2 ^ 31) \<le> n \<Longrightarrow> n < 2 ^ 31 \<Longrightarrow> sint (word_of_int n :: int32) = n"
  by (simp add: sint_sbintrunc' signed_take_bit_int_eq_self)

text \<open>
  C9, as stated, fails for a numeral outside 32 bits: the limit \<open>2147483648\<close> is numeric,
  \<open>ParseInt\<close> with bit size 32 reports a range error for it, and the handler uses 10.
\<close>

theorem getPaginationParams_counterexample:
  "QueryValues (sample_limit_only_ctx ''2147483648'') ''limit'' = Some (FormatInt 2147483648)
   \<and> fst (getPaginationParams (sample_limit_only_ctx ''2147483648'')) = 10
   \<and> sint (fst (getPaginationParams (sample_limit_only_ctx ''2147483648''))) \<noteq> 2147483648"
proof -
  have f: "FormatInt 2147483648 = ''2147483648''"
    by (simp add: FormatInt_def FormatUint.simps digit_char_def)
  have g: "getPaginationParams (sample_limit_only_ctx ''2147483648'') = (10, 1)"
    by (simp add: getPaginationParams_def DefaultQuery_def sample_limit_only_ctx_def
        ParseInt_def ParseUint_def is_digit_def digit_val_def)
  show ?thesis
    by (simp add: g f) (simp add: sample_limit_only_ctx_def)
qed

lemma foldl_digits_mono: "n \<le> foldl (\<lambda>a c. a * 10 + digit_val c) n ds"
proof (induction ds arbitrary: n)
  case Nil
  show ?case by simp
next
  case (Cons c cs)
  have "n \<le> n * 10 + digit_val c" by simp
  also have "\<dots> \<le> foldl (\<lambda>a c. a * 10 + digit_val c) (n * 10 + digit_val c) cs"
    by (rule Cons.IH)
  finally show ?case by simp
qed

lemma ParseUint_loop_digits:
  "list_all is_digit ds \<Longrightarrow> n \<le> 2 ^ 32 - 1 \<Longrightarrow>
   ParseUint_loop n ds =
     (if foldl (\<lambda>a c. a * 10 + digit_val c) n ds \<le> 2 ^ 32 - 1
      then Inr (foldl (\<lambda>a c. a * 10 + digit_val c) n ds) else Inl ErrRange)"
proof (induction ds arbitrary: n)
  case Nil
  then show ?case by simp
next
  case (Cons c cs)
  from Cons.prems have c: "is_digit c" and cs: "list_all is_digit cs" by simp_all
  show ?case
  proof (cases "n * 10 + digit_val c > 2 ^ 32 - 1")
    case True
    with foldl_digits_mono [of "n * 10 + digit_val c" cs]
    have "\<not> foldl (\<lambda>a c. a * 10 + digit_val c) (n * 10 + digit_val c) cs \<le> 2 ^ 32 - 1"
      by linarith
    with True c show ?thesis by simp
  next
    case False
    then have "n * 10 + digit_val c \<le> 2 ^ 32 - 1" by simp
    from Cons.IH [OF cs this] False c show ?thesis by simp
  qed
qed

lemma ParseUint_digits:
  "ds \<noteq> [] \<Longrightarrow> list_all is_digit ds \<Longrightarrow>
   ParseUint ds = (if numeral_value ds \<le> 2 ^ 32 - 1 then Inr (numeral_value ds) else Inl ErrRange)"
  by (simp add: ParseUint_def numeral_value_def ParseUint_loop_digits)

lemma ParseInt_drop_sign:
  "ParseInt (c # cs) =
     (case ParseUint (drop_sign (c # cs)) of
        Inl e \<Rightarrow> Inl e
      | Inr un \<Rightarrow>
          if c \<noteq> CHR ''-'' \<and> un \<ge> 2 ^ 31 then Inl ErrRange
          else if c = CHR ''-'' \<and> un > 2 ^ 31 then Inl ErrRange
          else Inr (if c = CHR ''-'' then - int un else int un))"
  by (simp add: ParseInt_def drop_sign_def Let_def)

lemma ParseInt_not_numeral:
  assumes "\<not> is_numeral v"
  shows "\<exists>e. ParseInt v = Inl e"
proof (cases v)
  case Nil
  then show ?thesis by (simp add: ParseInt_def)
next
  case (Cons c cs)
  have "\<exists>e. ParseUint (drop_sign v) = Inl e"
  proof (cases "drop_sign v = []")
    case True
    then show ?thesis by (simp add: ParseUint_def)
  next
    case False
    with assms have "\<not> list_all is_digit (drop_sign v)" by (simp add: is_numeral_def)
    from ParseUint_loop_non_digit [OF this, of 0] False show ?thesis
      by (simp add: ParseUint_def)
  qed
  then show ?thesis
    unfolding Cons ParseInt_drop_sign by auto
qed

lemma ParseInt_numeral:
  assumes "is_numeral v"
  shows "ParseInt v =
     (if - (2 ^ 31) \<le> signed_value v \<and> signed_value v < 2 ^ 31 then Inr (signed_value v)
      else Inl ErrRange)"
proof (cases v)
  case Nil
  with assms show ?thesis by (simp add: is_numeral_def drop_sign_def)
next
  case (Cons c cs)
  from assms have u: "ParseUint (drop_sign v) =
      (if numeral_value (drop_sign v) \<le> 2 ^ 32 - 1 then Inr (numeral_value (drop_sign v))
       else Inl ErrRange)"
    by (intro ParseUint_digits) (simp_all add: is_numeral_def)
  show ?thesis
  proof (cases "c = CHR ''-''")
    case True
    then have d: "drop_sign (c # cs) = cs"
      and sv: "signed_value (c # cs) = - int (numeral_value cs)"
      by (simp_all add: drop_sign_def signed_value_def)
    show ?thesis
      using u True unfolding Cons ParseInt_drop_sign sv d
      by (auto simp: not_le)
  next
    case False
    then have sv: "signed_value (c # cs) = int (numeral_value (drop_sign (c # cs)))"
      by (simp add: signed_value_def)
    show ?thesis
      using u False unfolding Cons ParseInt_drop_sign sv
      by (auto simp: not_le)
  qed
qed

lemma numeral_value_FormatUint: "numeral_value (FormatUint n) = n"
proof (induction n rule: FormatUint.induct)
  case (1 n)
  show ?case
  proof (cases "n < 10")
    case True
    then show ?thesis
      by (subst FormatUint.simps) (simp add: numeral_value_def digit_val_digit_char)
  next
    case False
    have d: "n mod 10 < 10" by simp
    from 1 False have "numeral_value (FormatUint (n div 10)) = n div 10" by simp
    with False show ?thesis
      by (subst FormatUint.simps) (simp add: numeral_value_def digit_val_digit_char [OF d])
  qed
qed

lemma drop_sign_FormatUint: "drop_sign (FormatUint n) = FormatUint n"
proof -
  obtain c cs where s: "FormatUint n = c # cs"
    using FormatUint_nonempty [of n] by (cases "FormatUint n") auto
  have "is_digit c" using FormatUint_digits [of n] s by simp
  then show ?thesis using is_digit_not_sign [of c] by (simp add: s drop_sign_def)
qed

lemma is_numeral_FormatInt: "is_numeral (FormatInt n)"
  by (simp add: is_numeral_def FormatInt_def drop_sign_FormatUint FormatUint_nonempty
      FormatUint_digits) (simp add: drop_sign_def FormatUint_nonempty FormatUint_digits)

lemma signed_value_FormatInt: "signed_value (FormatInt n) = n"
proof (cases "n < 0")
  case True
  then show ?thesis
    by (simp add: FormatInt_def signed_value_def numeral_value_FormatUint)
next
  case False
  obtain c cs where s: "FormatUint (nat n) = c # cs"
    using FormatUint_nonempty [of "nat n"] by (cases "FormatUint (nat n)") auto
  have "is_digit c" using FormatUint_digits [of "nat n"] s by simp
  then have c: "c \<noteq> CHR ''-''" using is_digit_not_sign by auto
  have "signed_value (c # cs) = int (numeral_value (drop_sign (c # cs)))"
    using c by (simp add: signed_value_def)
  also have "\<dots> = int (numeral_value (FormatUint (nat n)))"
    using drop_sign_FormatUint [of "nat n"] by (simp add: s)
  finally show ?thesis using False
    by (simp add: FormatInt_def s [symmetric] numeral_value_FormatUint)
qed

text \<open>
  C9, amended. The handler reads \<open>limit\<close> and \<open>page\<close> with \<open>ParseInt\<close> at 32 bits and
  falls back to the default on every error. So a list request without the \<open>limit\<close>
  (\<open>page\<close>) parameter gets limit 10 (page 1), and so does a request whose value is not a
  numeral (empty, a lone sign, a sign after a digit, two signs, any byte that is neither a
  digit nor a leading sign), or is a numeral of an integer outside 32 bits.
  Every numeral of an integer between \<open>-2^31\<close> and \<open>2^31 - 1\<close> is taken as that integer:
  with a plus sign, with leading zeros, zero, \<open>-0\<close> and the negative ones included. Every
  integer has a numeral, the one \<open>FormatInt\<close> prints. Each of the three list handlers hands
  the page and the limit it got this way to the service, and the service hands the limit on
  to the repository unchanged, next to the offset \<open>(page - 1) * limit\<close>. No clamping
  happens on the way.
\<close>

theorem getPaginationParams_int32:
  "(QueryValues ctx ''limit'' = None \<longrightarrow> fst (getPaginationParams ctx) = 10)
   \<and> (QueryValues ctx ''page'' = None \<longrightarrow> snd (getPaginationParams ctx) = 1)
   \<and> (QueryValues ctx ''limit'' = Some v \<and> \<not> is_numeral v
        \<longrightarrow> fst (getPaginationParams ctx) = 10)
   \<and> (QueryValues ctx ''page'' = Some v \<and> \<not> is_numeral v
        \<longrightarrow> snd (getPaginationParams ctx) = 1)
   \<and> (QueryValues ctx ''limit'' = Some v \<and> is_numeral v
        \<and> (signed_value v < - (2 ^ 31) \<or> 2 ^ 31 \<le> signed_value v)
        \<longrightarrow> fst (getPaginationParams ctx) = 10)
   \<and> (QueryValues ctx ''page'' = Some v \<and> is_numeral v
        \<and> (signed_value v < - (2 ^ 31) \<or> 2 ^ 31 \<le> signed_value v)
        \<longrightarrow> snd (getPaginationParams ctx) = 1)
   \<and> (QueryValues ctx ''limit'' = Some v \<and> is_numeral v
        \<and> - (2 ^ 31) \<le> signed_value v \<and> signed_value v < 2 ^ 31
        \<longrightarrow> sint (fst (getPaginationParams ctx)) = signed_value v)
   \<and> (QueryValues ctx ''page'' = Some v \<and> is_numeral v
        \<and> - (2 ^ 31) \<le> signed_value v \<and> signed_value v < 2 ^ 31
        \<longrightarrow> sint (snd (getPaginationParams ctx)) = signed_value v)
   \<and> is_numeral (FormatInt n) \<and> signed_value (FormatInt n) = n
   \<and> (v = [] \<or> (c \<in> set v \<and> \<not> is_digit c \<and> c \<noteq> CHR ''+'' \<and> c \<noteq> CHR ''-'')
        \<longrightarrow> \<not> is_numeral v)
   \<and> (uuid_Parse E (Param ctx ''senderID'') = Some senderID \<and> getPaginationParams ctx = (limit, page)
        \<longrightarrow> handlerImpl_GetRecentInvoices E service ctx w =
            (case InvoiceService_GetRecentInvoices service senderID page limit w of
               (Inl err, w') \<Rightarrow> ((StatusInternalServerError, ErrorBody (Error err)), w')
             | (Inr rows, w') \<Rightarrow> ((StatusOK, InvoicesBody rows), w'))
          \<and> InvoiceService_GetRecentInvoices (newInvoiceServiceImpl E repo) senderID page limit w =
            InvoiceRepository_GetRecentInvoices repo senderID limit ((page - 1) * limit) w)
   \<and> (uuid_Parse E (Param ctx ''userID'') = Some userID \<and> getPaginationParams ctx = (limit, page)
        \<longrightarrow> handlerImpl_GetRecentActivities E service ctx w =
            (case InvoiceService_GetRecentActivities service userID page limit w of
               (Inl err, w') \<Rightarrow> ((StatusInternalServerError, ErrorBody (Error err)), w')
             | (Inr rows, w') \<Rightarrow> ((StatusOK, RecentActivitiesBody rows), w'))
          \<and> InvoiceService_GetRecentActivities (newInvoiceServiceImpl E repo) userID page limit w =
            InvoiceRepository_GetRecentActivities repo userID limit ((page - 1) * limit) w)
   \<and> (uuid_Parse E (Param ctx ''userID'') = Some userID
        \<and> uuid_Parse E (Param ctx ''invoiceID'') = Some invoiceID
        \<and> getPaginationParams ctx = (limit, page)
        \<longrightarrow> handlerImpl_GetInvoiceActivities E service ctx w =
            (case InvoiceService_GetInvoiceActivities service userID invoiceID page limit w of
               (Inl err, w') \<Rightarrow> ((StatusInternalServerError, ErrorBody (Error err)), w')
             | (Inr rows, w') \<Rightarrow> ((StatusOK, InvoiceActivitiesBody rows), w'))
          \<and> InvoiceService_GetInvoiceActivities (newInvoiceServiceImpl E repo) userID invoiceID page limit w =
            InvoiceRepository_GetInvoiceActivities repo userID invoiceID limit ((page - 1) * limit) w)"
proof (intro conjI impI; (elim conjE)?)
  show "QueryValues ctx ''limit'' = None \<Longrightarrow> fst (getPaginationParams ctx) = 10"
    by (rule limit_absent)
  show "QueryValues ctx ''page'' = None \<Longrightarrow> snd (getPaginationParams ctx) = 1"
    by (rule page_absent)
  show "fst (getPaginationParams ctx) = 10"
    if "QueryValues ctx ''limit'' = Some v" "\<not> is_numeral v"
    using ParseInt_not_numeral [OF that(2)] limit_unparsed [OF that(1)] by blast
  show "snd (getPaginationParams ctx) = 1"
    if "QueryValues ctx ''page'' = Some v" "\<not> is_numeral v"
    using ParseInt_not_numeral [OF that(2)] page_unparsed [OF that(1)] by blast
  show "fst (getPaginationParams ctx) = 10"
    if "QueryValues ctx ''limit'' = Some v" "is_numeral v"
      "signed_value v < - (2 ^ 31) \<or> 2 ^ 31 \<le> signed_value v"
  proof -
    from that(3) have "ParseInt v = Inl ErrRange"
      by (auto simp: ParseInt_numeral [OF that(2)])
    then show ?thesis by (rule limit_unparsed [OF that(1)])
  qed
  show "snd (getPaginationParams ctx) = 1"
    if "QueryValues ctx ''page'' = Some v" "is_numeral v"
      "signed_value v < - (2 ^ 31) \<or> 2 ^ 31 \<le> signed_value v"
  proof -
    from that(3) have "ParseInt v = Inl ErrRange"
      by (auto simp: ParseInt_numeral [OF that(2)])
    then show ?thesis by (rule page_unparsed [OF that(1)])
  qed
  show "sint (fst (getPaginationParams ctx)) = signed_value v"
    if "QueryValues ctx ''limit'' = Some v" "is_numeral v"
      "- (2 ^ 31) \<le> signed_value v" "signed_value v < 2 ^ 31"
  proof -
    from that(3,4) have "ParseInt v = Inr (signed_value v)"
      by (simp add: ParseInt_numeral [OF that(2)])
    from limit_parsed [OF that(1) this] that(3,4) show ?thesis
      by (simp add: sint_int32_of_int)
  qed
  show "sint (snd (getPaginationParams ctx)) = signed_value v"
    if "QueryValues ctx ''page'' = Some v" "is_numeral v"
      "- (2 ^ 31) \<le> signed_value v" "signed_value v < 2 ^ 31"
  proof -
    from that(3,4) have "ParseInt v = Inr (signed_value v)"
      by (simp add: ParseInt_numeral [OF that(2)])
    from page_parsed [OF that(1) this] that(3,4) show ?thesis
      by (simp add: sint_int32_of_int)
  qed
  show "is_numeral (FormatInt n)"
    by (rule is_numeral_FormatInt)
  show "signed_value (FormatInt n) = n"
    by (rule signed_value_FormatInt)
  show "\<not> is_numeral v"
    if "v = [] \<or> (c \<in> set v \<and> \<not> is_digit c \<and> c \<noteq> CHR ''+'' \<and> c \<noteq> CHR ''-'')"
    using that by (cases v) (auto simp: is_numeral_def drop_sign_def list_all_iff)
  show "handlerImpl_GetRecentInvoices E service ctx w =
            (case InvoiceService_GetRecentInvoices service senderID page limit w of
               (Inl err, w') \<Rightarrow> ((StatusInternalServerError, ErrorBody (Error err)), w')
             | (Inr rows, w') \<Rightarrow> ((StatusOK, InvoicesBody rows), w'))"
    if "uuid_Parse E (Param ctx ''senderID'') = Some senderID" "getPaginationParams ctx = (limit, page)"
    using that by (simp add: handlerImpl_GetRecentInvoices_def)
  show "InvoiceService_GetRecentInvoices (newInvoiceServiceImpl E repo) senderID page limit w =
            InvoiceRepository_GetRecentInvoices repo senderID limit ((page - 1) * limit) w"
    by (simp add: newInvoiceServiceImpl_def invoiceServiceImpl_GetRecentInvoices_def)
  show "handlerImpl_GetRecentActivities E service ctx w =
            (case InvoiceService_GetRecentActivities service userID page limit w of
               (Inl err, w') \<Rightarrow> ((StatusInternalServerError, ErrorBody (Error err)), w')
             | (Inr rows, w') \<Rightarrow> ((StatusOK, RecentActivitiesBody rows), w'))"
    if "uuid_Parse E (Param ctx ''userID'') = Some userID" "getPaginationParams ctx = (limit, page)"
    using that by (simp add: handlerImpl_GetRecentActivities_def)
  show "InvoiceService_GetRecentActivities (newInvoiceServiceImpl E repo) userID page limit w =
            InvoiceRepository_GetRecentActivities repo userID limit ((page - 1) * limit) w"
    by (simp add: newInvoiceServiceImpl_def invoiceServiceImpl_GetRecentActivities_def)
  show "handlerImpl_GetInvoiceActivities E service ctx w =
            (case InvoiceService_GetInvoiceActivities service userID invoiceID page limit w of
               (Inl err, w') \<Rightarrow> ((StatusInternalServerError, ErrorBody (Error err)), w')
             | (Inr rows, w') \<Rightarrow> ((StatusOK, InvoiceActivitiesBody rows), w'))"
    if "uuid_Parse E (Param ctx ''userID'') = Some userID"
      "uuid_Parse E (Param ctx ''invoiceID'') = Some invoiceID"
      "getPaginationParams ctx = (limit, page)"
    using that by (simp add: handlerImpl_GetInvoiceActivities_def)
  show "InvoiceService_GetInvoiceActivities (newInvoiceServiceImpl E repo) userID invoiceID page limit w =
            InvoiceRepository_GetInvoiceActivities repo userID invoiceID limit ((page - 1) * limit) w"
    by (simp add: newInvoiceServiceImpl_def invoiceServiceImpl_GetInvoiceActivities_def)
qed

lemmas numeral_defs =
  is_numeral_def drop_sign_def signed_value_def numeral_value_def is_digit_def digit_val_def

theorem getPaginationParams_int32_witness:
  "QueryValues (sample_limit_only_ctx ''-'') ''page'' = None
   \<and> snd (getPaginationParams (sample_limit_only_ctx ''-'')) = 1
   \<and> QueryValues (sample_limit_only_ctx ''-'') ''limit'' = Some ''-''
   \<and> \<not> is_numeral ''-''
   \<and> fst (getPaginationParams (sample_limit_only_ctx ''-'')) = 10
   \<and> QueryValues (sample_page_only_ctx ''5-'') ''limit'' = None
   \<and> fst (getPaginationParams (sample_page_only_ctx ''5-'')) = 10
   \<and> QueryValues (sample_page_only_ctx ''5-'') ''page'' = Some ''5-''
   \<and> \<not> is_numeral ''5-''
   \<and> snd (getPaginationParams (sample_page_only_ctx ''5-'')) = 1
   \<and> \<not> is_numeral ''--5'' \<and> \<not> is_numeral ''+''
   \<and> fst (getPaginationParams (sample_list_ctx ''--5'' ''+'')) = 10
   \<and> snd (getPaginationParams (sample_list_ctx ''--5'' ''+'')) = 1
   \<and> CHR ''t'' \<in> set ''ten'' \<and> \<not> is_digit CHR ''t'' \<and> \<not> is_numeral ''ten'' \<and> \<not> is_numeral []
   \<and> fst (getPaginationParams (sample_list_ctx ''ten'' [])) = 10
   \<and> snd (getPaginationParams (sample_list_ctx ''ten'' [])) = 1
   \<and> is_numeral ''+7'' \<and> signed_value ''+7'' = 7
   \<and> is_numeral ''007'' \<and> signed_value ''007'' = 7
   \<and> sint (fst (getPaginationParams (sample_list_ctx ''+7'' ''007''))) = 7
   \<and> sint (snd (getPaginationParams (sample_list_ctx ''+7'' ''007''))) = 7
   \<and> is_numeral ''-0'' \<and> signed_value ''-0'' = 0
   \<and> is_numeral ''-2147483648'' \<and> signed_value ''-2147483648'' = - 2147483648
   \<and> sint (fst (getPaginationParams (sample_list_ctx ''-0'' ''-2147483648''))) = 0
   \<and> sint (snd (getPaginationParams (sample_list_ctx ''-0'' ''-2147483648''))) = - 2147483648
   \<and> is_numeral ''4294967296'' \<and> signed_value ''4294967296'' = 4294967296
   \<and> is_numeral ''-2147483649'' \<and> signed_value ''-2147483649'' = - 2147483649
   \<and> fst (getPaginationParams (sample_list_ctx ''4294967296'' ''-2147483649'')) = 10
   \<and> snd (getPaginationParams (sample_list_ctx ''4294967296'' ''-2147483649'')) = 1
   \<and> is_numeral (FormatInt (- 5)) \<and> signed_value (FormatInt (- 5)) = - 5
   \<and> QueryValues (sample_list_ctx ''-5'' ''0'') ''limit'' = Some (FormatInt (- 5))
   \<and> sint (fst (getPaginationParams (sample_list_ctx ''-5'' ''0''))) = - 5
   \<and> QueryValues (sample_list_ctx ''-5'' ''0'') ''page'' = Some (FormatInt 0)
   \<and> sint (snd (getPaginationParams (sample_list_ctx ''-5'' ''0''))) = 0
   \<and> uuid_Parse sample_env (Param (sample_list_ctx ''-5'' ''0'') ''senderID'') = Some 1
   \<and> uuid_Parse sample_env (Param (sample_list_ctx ''-5'' ''0'') ''userID'') = Some 1
   \<and> uuid_Parse sample_env (Param (sample_list_ctx ''-5'' ''0'') ''invoiceID'') = Some 9
   \<and> getPaginationParams (sample_list_ctx ''-5'' ''0'') = (- 5, 0)
   \<and> InvoiceService_GetRecentInvoices (newInvoiceServiceImpl sample_env (newInvoiceRepoImpl sample_env)) 1 0 (- 5) sample_world =
       InvoiceRepository_GetRecentInvoices (newInvoiceRepoImpl sample_env) 1 (- 5) ((0 - 1) * (- 5)) sample_world
   \<and> InvoiceService_GetRecentActivities (newInvoiceServiceImpl sample_env (newInvoiceRepoImpl sample_env)) 1 0 (- 5) sample_world =
       InvoiceRepository_GetRecentActivities (newInvoiceRepoImpl sample_env) 1 (- 5) ((0 - 1) * (- 5)) sample_world
   \<and> InvoiceService_GetInvoiceActivities (newInvoiceServiceImpl sample_env (newInvoiceRepoImpl sample_env)) 1 9 0 (- 5) sample_world =
       InvoiceRepository_GetInvoiceActivities (newInvoiceRepoImpl sample_env) 1 9 (- 5) ((0 - 1) * (- 5)) sample_world"
proof -
  note T = getPaginationParams_int32 [where E = sample_env and senderID = 1 and userID = 1
      and invoiceID = 9 and w = sample_world and repo = "newInvoiceRepoImpl sample_env"
      and service = "newInvoiceServiceImpl sample_env (newInvoiceRepoImpl sample_env)"
      and c = "CHR ''t''"]
  note limit_none = T [THEN conjunct1, THEN mp]
  note T1 = T [THEN conjunct2]
  note page_none = T1 [THEN conjunct1, THEN mp]
  note T2 = T1 [THEN conjunct2]
  note limit_other = T2 [THEN conjunct1, THEN mp]
  note T3 = T2 [THEN conjunct2]
  note page_other = T3 [THEN conjunct1, THEN mp]
  note T4 = T3 [THEN conjunct2]
  note limit_wide = T4 [THEN conjunct1, THEN mp]
  note T5 = T4 [THEN conjunct2]
  note page_wide = T5 [THEN conjunct1, THEN mp]
  note T6 = T5 [THEN conjunct2]
  note limit_taken = T6 [THEN conjunct1, THEN mp]
  note T7 = T6 [THEN conjunct2]
  note page_taken = T7 [THEN conjunct1, THEN mp]
  note T8 = T7 [THEN conjunct2]
  note printed = T8 [THEN conjunct1]
  note T9 = T8 [THEN conjunct2]
  note printed_value = T9 [THEN conjunct1]
  note T10 = T9 [THEN conjunct2]
  note other = T10 [THEN conjunct1, THEN mp]
  note T11 = T10 [THEN conjunct2]
  note invoices_call = T11 [THEN conjunct1, THEN mp, THEN conjunct2]
  note T12 = T11 [THEN conjunct2]
  note activities_call = T12 [THEN conjunct1, THEN mp, THEN conjunct2]
  note invoice_activities_call = T12 [THEN conjunct2, THEN mp, THEN conjunct2]
  have q: "\<And>a b. QueryValues (sample_list_ctx a b) ''limit'' = Some a"
    "\<And>a b. QueryValues (sample_list_ctx a b) ''page'' = Some b"
    "\<And>a. QueryValues (sample_limit_only_ctx a) ''limit'' = Some a"
    "\<And>a. QueryValues (sample_limit_only_ctx a) ''page'' = None"
    "\<And>b. QueryValues (sample_page_only_ctx b) ''page'' = Some b"
    "\<And>b. QueryValues (sample_page_only_ctx b) ''limit'' = None"
    by (simp_all add: sample_list_ctx_def sample_limit_only_ctx_def sample_page_only_ctx_def)
  have t: "CHR ''t'' \<in> set ''ten''" "\<not> is_digit CHR ''t''" "CHR ''t'' \<noteq> CHR ''+''"
    "CHR ''t'' \<noteq> CHR ''-''"
    by (simp_all add: is_digit_def)
  have n0: "\<not> is_numeral ''ten''"
    by (rule other) (simp add: t)
  have n1: "\<not> is_numeral []"
    by (rule other) simp
  have n: "\<not> is_numeral ''-''" "\<not> is_numeral ''5-''" "\<not> is_numeral ''--5''" "\<not> is_numeral ''+''"
    "is_numeral ''+7''" "is_numeral ''007''" "is_numeral ''-0''" "is_numeral ''-2147483648''"
    "is_numeral ''4294967296''" "is_numeral ''-2147483649''" "is_numeral ''-5''" "is_numeral ''0''"
    by (simp_all add: is_numeral_def drop_sign_def is_digit_def)
  have s: "signed_value ''+7'' = 7" "signed_value ''007'' = 7" "signed_value ''-0'' = 0"
    "signed_value ''-2147483648'' = - 2147483648" "signed_value ''4294967296'' = 4294967296"
    "signed_value ''-2147483649'' = - 2147483649" "signed_value ''-5'' = - 5"
    "signed_value ''0'' = 0"
    by (simp_all add: numeral_defs)
  have f: "FormatInt (- 5) = ''-5''" "FormatInt 0 = ''0''"
    by (simp_all add: FormatInt_def FormatUint.simps digit_char_def)
  let ?a = "sample_limit_only_ctx ''-''" and ?p = "sample_page_only_ctx ''5-''"
  have a1: "snd (getPaginationParams ?a) = 1"
    by (rule page_none) (simp add: q)
  have a2: "fst (getPaginationParams ?a) = 10"
    by (rule limit_other, rule conjI, rule q, rule n)
  have p1: "fst (getPaginationParams ?p) = 10"
    by (rule limit_none) (simp add: q)
  have p2: "snd (getPaginationParams ?p) = 1"
    by (rule page_other, rule conjI, rule q, rule n)
  let ?c = "sample_list_ctx ''--5'' ''+''"
  have c1: "fst (getPaginationParams ?c) = 10"
    by (rule limit_other, rule conjI, rule q, rule n)
  have c2: "snd (getPaginationParams ?c) = 1"
    by (rule page_other, rule conjI, rule q, rule n)
  let ?d = "sample_list_ctx ''ten'' []"
  have d1: "fst (getPaginationParams ?d) = 10"
    by (rule limit_other, rule conjI, rule q, rule n0)
  have d2: "snd (getPaginationParams ?d) = 1"
    by (rule page_other, rule conjI, rule q, rule n1)
  let ?e = "sample_list_ctx ''+7'' ''007''"
  have "sint (fst (getPaginationParams ?e)) = signed_value ''+7''"
    by (rule limit_taken, intro conjI, rule q, simp_all add: n s)
  then have e1: "sint (fst (getPaginationParams ?e)) = 7"
    by (simp only: s)
  have "sint (snd (getPaginationParams ?e)) = signed_value ''007''"
    by (rule page_taken, intro conjI, rule q, simp_all add: n s)
  then have e2: "sint (snd (getPaginationParams ?e)) = 7"
    by (simp only: s)
  let ?g = "sample_list_ctx ''-0'' ''-2147483648''"
  have "sint (fst (getPaginationParams ?g)) = signed_value ''-0''"
    by (rule limit_taken, intro conjI, rule q, simp_all add: n s)
  then have g1: "sint (fst (getPaginationParams ?g)) = 0"
    by (simp only: s)
  have "sint (snd (getPaginationParams ?g)) = signed_value ''-2147483648''"
    by (rule page_taken, intro conjI, rule q, simp_all add: n s)
  then have g2: "sint (snd (getPaginationParams ?g)) = - 2147483648"
    by (simp only: s)
  let ?h = "sample_list_ctx ''4294967296'' ''-2147483649''"
  have h1: "fst (getPaginationParams ?h) = 10"
    by (rule limit_wide, intro conjI, rule q, simp_all add: n s)
  have h2: "snd (getPaginationParams ?h) = 1"
    by (rule page_wide, intro conjI, rule q, simp_all add: n s)
  let ?b = "sample_list_ctx ''-5'' ''0''"
  have b0: "is_numeral (FormatInt (- 5))" "signed_value (FormatInt (- 5)) = - 5"
    by (rule printed, rule printed_value)
  have b3: "uuid_Parse sample_env (Param ?b ''senderID'') = Some 1"
    and b4: "uuid_Parse sample_env (Param ?b ''userID'') = Some 1"
    and b5: "uuid_Parse sample_env (Param ?b ''invoiceID'') = Some 9"
    by (simp_all add: sample_list_ctx_def sample_parse_defs)
  have b6: "getPaginationParams ?b = (- 5, 0)"
    by (simp add: getPaginationParams_def DefaultQuery_def sample_list_ctx_def strconv_defs)
  have "sint (fst (getPaginationParams ?b)) = signed_value ''-5''"
    by (rule limit_taken, intro conjI, rule q, simp_all add: n s)
  then have b1: "sint (fst (getPaginationParams ?b)) = - 5"
    by (simp only: s)
  have "sint (snd (getPaginationParams ?b)) = signed_value ''0''"
    by (rule page_taken, intro conjI, rule q, simp_all add: n s)
  then have b2: "sint (snd (getPaginationParams ?b)) = 0"
    by (simp only: s)
  have b7: "InvoiceService_GetRecentInvoices (newInvoiceServiceImpl sample_env (newInvoiceRepoImpl sample_env)) 1 0 (- 5) sample_world =
       InvoiceRepository_GetRecentInvoices (newInvoiceRepoImpl sample_env) 1 (- 5) ((0 - 1) * (- 5)) sample_world"
    by (rule invoices_call, rule conjI, rule b3, rule b6)
  have b8: "InvoiceService_GetRecentActivities (newInvoiceServiceImpl sample_env (newInvoiceRepoImpl sample_env)) 1 0 (- 5) sample_world =
       InvoiceRepository_GetRecentActivities (newInvoiceRepoImpl sample_env) 1 (- 5) ((0 - 1) * (- 5)) sample_world"
    by (rule activities_call, rule conjI, rule b4, rule b6)
  have b9: "InvoiceService_GetInvoiceActivities (newInvoiceServiceImpl sample_env (newInvoiceRepoImpl sample_env)) 1 9 0 (- 5) sample_world =
       InvoiceRepository_GetInvoiceActivities (newInvoiceRepoImpl sample_env) 1 9 (- 5) ((0 - 1) * (- 5)) sample_world"
    by (rule invoice_activities_call, intro conjI, rule b4, rule b5, rule b6)
  have qa: "QueryValues ?a ''page'' = None" "QueryValues ?a ''limit'' = Some ''-''"
    "QueryValues ?p ''limit'' = None" "QueryValues ?p ''page'' = Some ''5-''"
    "QueryValues ?b ''limit'' = Some (FormatInt (- 5))"
    "QueryValues ?b ''page'' = Some (FormatInt 0)"
    by (simp_all add: q f)
  show ?thesis
    by (intro conjI)
      (rule qa n n0 n1 s t a1 a2 p1 p2 c1 c2 d1 d2 e1 e2 g1 g2 h1 h2 b0 b1 b2 b3 b4 b5 b6 b7 b8
        b9)+
qed

subsection \<open>Totals by status\<close>

text \<open>
  C6. When the connection answers, \<open>GetTotalByStatus\<close> returns, for every status string
  and so for each of \<open>draft\<close>, \<open>pending\<close>, \<open>paid\<close> and \<open>overdue\<close>, the sum of the final
  amounts of the invoices with that status and their number, without an error; when there
  is no such invoice the result is total 0 and count 0. The service hands the repository's
  result on as it is.
\<close>

theorem GetTotalByStatus_sum_count:
  "fault E (SelectTotalByStatus status) = None \<Longrightarrow>
   invoiceRepoImpl_GetTotalByStatus E status w =
     (Inr (sum_list (map inv_FinalAmount [i \<leftarrow> invoices (store w). inv_Status i = status]),
           int (length [i \<leftarrow> invoices (store w). inv_Status i = status])), w)
   \<and> ([i \<leftarrow> invoices (store w). inv_Status i = status] = []
        \<longrightarrow> invoiceRepoImpl_GetTotalByStatus E status w = (Inr (0, 0), w))
   \<and> invoiceServiceImpl_GetTotalByStatus (newInvoiceRepoImpl E) status w =
       invoiceRepoImpl_GetTotalByStatus E status w"
  by (simp add: invoiceRepoImpl_GetTotalByStatus_def select_total_by_status_def sql_SUM_def
      COALESCE_def Let_def invoiceServiceImpl_GetTotalByStatus_def newInvoiceRepoImpl_def)

theorem GetTotalByStatus_sum_count_witness:
  "fault sample_env (SelectTotalByStatus ''paid'') = None
   \<and> invoiceRepoImpl_GetTotalByStatus sample_env ''paid'' sample_ledger_world =
       (Inr (19001 / 2, 2), sample_ledger_world)
   \<and> fault sample_env (SelectTotalByStatus ''draft'') = None
   \<and> [i \<leftarrow> invoices (store sample_ledger_world). inv_Status i = ''draft''] = []
   \<and> invoiceRepoImpl_GetTotalByStatus sample_env ''draft'' sample_ledger_world =
       (Inr (0, 0), sample_ledger_world)"
proof -
  have h: "fault sample_env (SelectTotalByStatus ''paid'') = None"
    "fault sample_env (SelectTotalByStatus ''draft'') = None"
    by (simp_all add: sample_env_def)
  have rows: "[i \<leftarrow> invoices (store sample_ledger_world). inv_Status i = ''draft''] = []"
    "sum_list (map inv_FinalAmount
       [i \<leftarrow> invoices (store sample_ledger_world). inv_Status i = ''paid'']) = 19001 / 2"
    "int (length [i \<leftarrow> invoices (store sample_ledger_world). inv_Status i = ''paid'']) = 2"
    by (simp_all add: sample_ledger_world_def sample_db_def sample_invoice_def)
  from GetTotalByStatus_sum_count [OF h(1), of sample_ledger_world]
    GetTotalByStatus_sum_count [OF h(2), of sample_ledger_world] h rows
  show ?thesis by simp
qed

subsection \<open>Rounding to the scale of a NUMERIC column\<close>

lemma floor_rat_numeral [simp]:
  "\<lfloor>numeral a / numeral b :: rat\<rfloor> = numeral a div numeral b"
  using floor_divide_of_int_eq [of "numeral a" "numeral b", where ?'a = rat] by simp

lemma floor_rat_half [simp]: "\<lfloor>1 / 2 :: rat\<rfloor> = 0"
  by (simp add: floor_eq_iff)

lemma round_half_away_of_int [simp]: "round_half_away (of_int k) = k"
proof -
  have "\<lfloor>rat_of_int k + 1 / 2\<rfloor> = k" "\<lfloor>- rat_of_int k + 1 / 2\<rfloor> = - k"
    by (simp_all add: floor_eq_iff)
  then show ?thesis
    by (simp add: round_half_away_def)
qed

lemma numeric_round_of_int [simp]: "numeric_round s (of_int k / 10 ^ s) = of_int k / 10 ^ s"
  by (simp add: numeric_round_def)

lemma numeric_round_numeral [simp]: "numeric_round s (numeral n) = numeral n"
  using round_half_away_of_int [of "numeral n * 10 ^ s"] by (simp add: numeric_round_def)

lemma numeric_round_zero [simp]: "numeric_round s 0 = 0"
  using numeric_round_of_int [of s 0] by simp

lemma numeric_round_idem [simp]: "numeric_round s (numeric_round s v) = numeric_round s v"
  by (simp add: numeric_round_def)

lemma as_invoices_row_fields [simp]:
  "inv_InvoiceID (as_invoices_row r) = inv_InvoiceID r"
  "inv_InvoiceNumber (as_invoices_row r) = inv_InvoiceNumber r"
  "inv_SenderID (as_invoices_row r) = inv_SenderID r"
  "inv_CustomerID (as_invoices_row r) = inv_CustomerID r"
  "inv_IssueDate (as_invoices_row r) = inv_IssueDate r"
  "inv_DueDate (as_invoices_row r) = inv_DueDate r"
  "inv_Status (as_invoices_row r) = inv_Status r"
  "inv_Currency (as_invoices_row r) = inv_Currency r"
  "inv_Notes (as_invoices_row r) = inv_Notes r"
  "inv_TotalAmount (as_invoices_row r) = numeric_round 2 (inv_TotalAmount r)"
  "inv_DiscountPercentage (as_invoices_row r) = numeric_round 2 (inv_DiscountPercentage r)"
  "inv_DiscountedAmount (as_invoices_row r) = numeric_round 2 (inv_DiscountedAmount r)"
  "inv_FinalAmount (as_invoices_row r) = numeric_round 2 (inv_FinalAmount r)"
  by (simp_all add: as_invoices_row_def)

lemma as_invoice_items_row_fields [simp]:
  "itm_ItemID (as_invoice_items_row r) = itm_ItemID r"
  "itm_InvoiceID (as_invoice_items_row r) = itm_InvoiceID r"
  "itm_Name (as_invoice_items_row r) = itm_Name r"
  "itm_Description (as_invoice_items_row r) = itm_Description r"
  "itm_Quantity (as_invoice_items_row r) = itm_Quantity r"
  "itm_UnitPrice (as_invoice_items_row r) = numeric_round 2 (itm_UnitPrice r)"
  "itm_TotalPrice (as_invoice_items_row r) = numeric_round 2 (itm_TotalPrice r)"
  by (simp_all add: as_invoice_items_row_def)

subsection \<open>Invoice creation in the repository\<close>

lemma tx_Exec_Inr: "tx_Exec E q tx = Inr tx' \<Longrightarrow> fault E q = None \<and> exec q tx = Inr tx'"
  by (simp add: tx_Exec_def split: option.splits)

lemma exec_InsertInvoice_Inr:
  "exec (InsertInvoice r) t = Inr t' \<Longrightarrow>
   t' = t\<lparr>invoices := invoices t @
            [(as_invoices_row r)\<lparr>inv_CreatedAt := now t, inv_UpdatedAt := now t\<rparr>]\<rparr>"
  by (simp split: if_splits)

lemma exec_InsertInvoiceItem_Inr:
  "exec (InsertInvoiceItem r) t = Inr t' \<Longrightarrow>
   t' = t\<lparr>invoice_items := invoice_items t @
            [(as_invoice_items_row r)\<lparr>itm_CreatedAt := now t, itm_UpdatedAt := now t\<rparr>]\<rparr>"
  by (simp split: if_splits)

lemma exec_InsertPaymentInformation_Inr:
  "exec (InsertPaymentInformation r) t = Inr t' \<Longrightarrow>
   t' = t\<lparr>payment_information :=
            payment_information t @ [r\<lparr>pin_CreatedAt := now t, pin_UpdatedAt := now t\<rparr>]\<rparr>"
  by (simp split: if_splits)

lemma exec_InsertInvoiceActivity_Inr:
  "exec (InsertInvoiceActivity r) t = Inr t' \<Longrightarrow>
   t' = t\<lparr>invoice_activities := invoice_activities t @ [r\<lparr>iac_CreatedAt := now t\<rparr>]\<rparr>"
  by (simp split: if_splits)

lemma exec_InsertRecentActivity_Inr:
  "exec (InsertRecentActivity r) t = Inr t' \<Longrightarrow>
   t' = t\<lparr>recent_activities := recent_activities t @ [r\<lparr>rac_CreatedAt := now t\<rparr>]\<rparr>"
  by (simp split: if_splits)

lemma insert_items_Inr:
  "insert_items E invoiceID items tx = Inr tx' \<Longrightarrow>
   tx' = tx\<lparr>invoice_items := invoice_items tx @ map (stamp_item invoiceID (now tx)) items\<rparr>"
proof (induction items arbitrary: tx)
  case Nil
  then show ?case by simp
next
  case (Cons item items)
  from Cons.prems obtain tx1 where
    1: "tx_Exec E (InsertInvoiceItem (item\<lparr>itm_InvoiceID := invoiceID\<rparr>)) tx = Inr tx1"
    and 2: "insert_items E invoiceID items tx1 = Inr tx'"
    by (auto split: sum.splits)
  from 1 have tx1: "tx1 = tx\<lparr>invoice_items := invoice_items tx @ [stamp_item invoiceID (now tx) item]\<rparr>"
    by (auto dest!: tx_Exec_Inr exec_InsertInvoiceItem_Inr
        simp: stamp_item_def as_invoice_items_row_def)
  from Cons.IH [OF 2] show ?case by (simp add: tx1)
qed

lemma insert_items_faults:
  "insert_items E invoiceID items tx = Inr tx' \<Longrightarrow> item \<in> set items \<Longrightarrow>
   fault E (InsertInvoiceItem (item\<lparr>itm_InvoiceID := invoiceID\<rparr>)) = None"
proof (induction items arbitrary: tx)
  case Nil
  then show ?case by simp
next
  case (Cons a items)
  from Cons.prems(1) obtain tx1 where
    1: "tx_Exec E (InsertInvoiceItem (a\<lparr>itm_InvoiceID := invoiceID\<rparr>)) tx = Inr tx1"
    and 2: "insert_items E invoiceID items tx1 = Inr tx'"
    by (auto split: sum.splits)
  show ?case
  proof (cases "item = a")
    case True
    with 1 show ?thesis by (auto dest: tx_Exec_Inr)
  next
    case False
    with Cons.prems(2) have "item \<in> set items" by simp
    with Cons.IH [OF 2] show ?thesis by simp
  qed
qed

lemma insert_invoice_rows_Inr:
  assumes "insert_invoice_rows E invoice items customerID paymentInfo tx = Inr tx'"
  shows "tx' = tx
    \<lparr>invoices := invoices tx @
       [(as_invoices_row (invoice\<lparr>inv_CustomerID := customerID\<rparr>))
          \<lparr>inv_CreatedAt := now tx, inv_UpdatedAt := now tx\<rparr>],
     invoice_items := invoice_items tx @ map (stamp_item (inv_InvoiceID invoice) (now tx)) items,
     payment_information := payment_information tx @
       [paymentInfo\<lparr>pin_InvoiceID := inv_InvoiceID invoice, pin_CreatedAt := now tx,
                     pin_UpdatedAt := now tx\<rparr>]\<rparr>"
    and "fault E (InsertInvoice (invoice\<lparr>inv_CustomerID := customerID\<rparr>)) = None"
    and "item \<in> set items \<Longrightarrow>
         fault E (InsertInvoiceItem (item\<lparr>itm_InvoiceID := inv_InvoiceID invoice\<rparr>)) = None"
    and "fault E (InsertPaymentInformation (paymentInfo\<lparr>pin_InvoiceID := inv_InvoiceID invoice\<rparr>)) = None"
proof -
  from assms obtain tx1 tx2 where
    1: "tx_Exec E (InsertInvoice (invoice\<lparr>inv_CustomerID := customerID\<rparr>)) tx = Inr tx1"
    and 2: "insert_items E (inv_InvoiceID invoice) items tx1 = Inr tx2"
    and 3: "tx_Exec E (InsertPaymentInformation
                         (paymentInfo\<lparr>pin_InvoiceID := inv_InvoiceID invoice\<rparr>)) tx2 = Inr tx'"
    by (auto simp: insert_invoice_rows_def split: sum.splits)
  from 1 have t1: "tx1 = tx\<lparr>invoices := invoices tx @
       [(as_invoices_row (invoice\<lparr>inv_CustomerID := customerID\<rparr>))
          \<lparr>inv_CreatedAt := now tx, inv_UpdatedAt := now tx\<rparr>]\<rparr>"
    by (auto dest!: tx_Exec_Inr exec_InsertInvoice_Inr)
  from insert_items_Inr [OF 2] have
    t2: "tx2 = tx1\<lparr>invoice_items := invoice_items tx1 @ map (stamp_item (inv_InvoiceID invoice) (now tx1)) items\<rparr>" .
  from 3 have t3: "tx' = tx2\<lparr>payment_information := payment_information tx2 @
       [paymentInfo\<lparr>pin_InvoiceID := inv_InvoiceID invoice, pin_CreatedAt := now tx2,
                     pin_UpdatedAt := now tx2\<rparr>]\<rparr>"
    by (auto dest!: tx_Exec_Inr exec_InsertPaymentInformation_Inr)
  show "tx' = tx
    \<lparr>invoices := invoices tx @
       [(as_invoices_row (invoice\<lparr>inv_CustomerID := customerID\<rparr>))
          \<lparr>inv_CreatedAt := now tx, inv_UpdatedAt := now tx\<rparr>],
     invoice_items := invoice_items tx @ map (stamp_item (inv_InvoiceID invoice) (now tx)) items,
     payment_information := payment_information tx @
       [paymentInfo\<lparr>pin_InvoiceID := inv_InvoiceID invoice, pin_CreatedAt := now tx,
                     pin_UpdatedAt := now tx\<rparr>]\<rparr>"
    by (simp add: t3 t2 t1)
  show "fault E (InsertInvoice (invoice\<lparr>inv_CustomerID := customerID\<rparr>)) = None"
    using 1 by (auto dest: tx_Exec_Inr)
  show "item \<in> set items \<Longrightarrow>
         fault E (InsertInvoiceItem (item\<lparr>itm_InvoiceID := inv_InvoiceID invoice\<rparr>)) = None"
    using insert_items_faults [OF 2] by simp
  show "fault E (InsertPaymentInformation (paymentInfo\<lparr>pin_InvoiceID := inv_InvoiceID invoice\<rparr>)) = None"
    using 3 by (auto dest: tx_Exec_Inr)
qed

lemma insert_activity_rows_Inr:
  assumes "insert_activity_rows E invoice activityID tx = Inr tx'"
  shows "tx' = tx
    \<lparr>invoice_activities := invoice_activities tx @
       [(creation_activity invoice activityID)\<lparr>iac_CreatedAt := now tx\<rparr>],
     recent_activities := recent_activities tx @
       [(creation_recent_activity invoice activityID)\<lparr>rac_CreatedAt := now tx\<rparr>]\<rparr>"
    and "fault E (InsertInvoiceActivity (creation_activity invoice activityID)) = None"
    and "fault E (InsertRecentActivity (creation_recent_activity invoice activityID)) = None"
proof -
  from assms obtain tx1 where
    1: "tx_Exec E (InsertInvoiceActivity (creation_activity invoice activityID)) tx = Inr tx1"
    and 2: "tx_Exec E (InsertRecentActivity (creation_recent_activity invoice activityID)) tx1 = Inr tx'"
    by (auto simp: insert_activity_rows_def split: sum.splits)
  from 1 have t1: "tx1 = tx\<lparr>invoice_activities := invoice_activities tx @
       [(creation_activity invoice activityID)\<lparr>iac_CreatedAt := now tx\<rparr>]\<rparr>"
    by (auto dest!: tx_Exec_Inr exec_InsertInvoiceActivity_Inr)
  from 2 have t2: "tx' = tx1\<lparr>recent_activities := recent_activities tx1 @
       [(creation_recent_activity invoice activityID)\<lparr>rac_CreatedAt := now tx1\<rparr>]\<rparr>"
    by (auto dest!: tx_Exec_Inr exec_InsertRecentActivity_Inr)
  show "tx' = tx
    \<lparr>invoice_activities := invoice_activities tx @
       [(creation_activity invoice activityID)\<lparr>iac_CreatedAt := now tx\<rparr>],
     recent_activities := recent_activities tx @
       [(creation_recent_activity invoice activityID)\<lparr>rac_CreatedAt := now tx\<rparr>]\<rparr>"
    by (simp add: t2 t1)
  show "fault E (InsertInvoiceActivity (creation_activity invoice activityID)) = None"
    using 1 by (auto dest: tx_Exec_Inr)
  show "fault E (InsertRecentActivity (creation_recent_activity invoice activityID)) = None"
    using 2 by (auto dest: tx_Exec_Inr)
qed


lemma CreateInvoice_error_unchanged:
  "invoiceRepoImpl_CreateInvoice E invoice items customerID paymentInfo w = (Inl e, w') \<Longrightarrow>
   store w' = store w"
  by (auto simp: invoiceRepoImpl_CreateInvoice_def split: sum.splits prod.splits)

lemma CreateInvoice_result_cases:
  "(\<exists>e. fst (invoiceRepoImpl_CreateInvoice E invoice items customerID paymentInfo w) = Inl e)
   \<or> fst (invoiceRepoImpl_CreateInvoice E invoice items customerID paymentInfo w)
       = Inr (inv_InvoiceID invoice)"
  by (auto simp: invoiceRepoImpl_CreateInvoice_def split: sum.splits prod.splits)

lemma CreateInvoice_success:
  assumes "invoiceRepoImpl_CreateInvoice E invoice items customerID paymentInfo w = (Inr iid, w')"
  shows "iid = inv_InvoiceID invoice"
    and "store w' = (store w)
      \<lparr>invoices := invoices (store w) @
         [(as_invoices_row (invoice\<lparr>inv_CustomerID := customerID\<rparr>))
                  \<lparr>inv_CreatedAt := now (store w), inv_UpdatedAt := now (store w)\<rparr>],
       invoice_items := invoice_items (store w) @
         map (stamp_item (inv_InvoiceID invoice) (now (store w))) items,
       payment_information := payment_information (store w) @
         [paymentInfo\<lparr>pin_InvoiceID := inv_InvoiceID invoice, pin_CreatedAt := now (store w),
                       pin_UpdatedAt := now (store w)\<rparr>],
       invoice_activities := invoice_activities (store w) @
         [(creation_activity invoice (fst (uuid_New E (rng w))))\<lparr>iac_CreatedAt := now (store w)\<rparr>],
       recent_activities := recent_activities (store w) @
         [(creation_recent_activity invoice (fst (uuid_New E (rng w))))
            \<lparr>rac_CreatedAt := now (store w)\<rparr>]\<rparr>"
    and "fault E Begin = None"
    and "fault E (InsertInvoice (invoice\<lparr>inv_CustomerID := customerID\<rparr>)) = None"
    and "item \<in> set items \<Longrightarrow>
         fault E (InsertInvoiceItem (item\<lparr>itm_InvoiceID := inv_InvoiceID invoice\<rparr>)) = None"
    and "fault E (InsertPaymentInformation (paymentInfo\<lparr>pin_InvoiceID := inv_InvoiceID invoice\<rparr>))
         = None"
    and "fault E (InsertInvoiceActivity (creation_activity invoice (fst (uuid_New E (rng w))))) = None"
    and "fault E (InsertRecentActivity (creation_recent_activity invoice (fst (uuid_New E (rng w)))))
         = None"
    and "fault E Commit = None"
proof -
  obtain activityID g where new: "uuid_New E (rng w) = (activityID, g)"
    by (cases "uuid_New E (rng w)")
  from assms new obtain tx1 tx2 where
    b: "pool_Begin E (store w) = Inr (store w)"
    and 1: "insert_invoice_rows E invoice items customerID paymentInfo (store w) = Inr tx1"
    and 2: "insert_activity_rows E invoice activityID tx1 = Inr tx2"
    and 3: "tx_Commit E tx2 = Inr (store w')"
    and i: "iid = inv_InvoiceID invoice"
    by (auto simp: invoiceRepoImpl_CreateInvoice_def pool_Begin_def tx_Commit_def
        split: sum.splits option.splits)
  note r1 = insert_invoice_rows_Inr [OF 1]
  note r2 = insert_activity_rows_Inr [OF 2]
  from 3 have c: "fault E Commit = None" "store w' = tx2"
    by (auto simp: tx_Commit_def split: option.splits)
  show "iid = inv_InvoiceID invoice" by (rule i)
  show "store w' = (store w)
      \<lparr>invoices := invoices (store w) @
         [(as_invoices_row (invoice\<lparr>inv_CustomerID := customerID\<rparr>))
                  \<lparr>inv_CreatedAt := now (store w), inv_UpdatedAt := now (store w)\<rparr>],
       invoice_items := invoice_items (store w) @
         map (stamp_item (inv_InvoiceID invoice) (now (store w))) items,
       payment_information := payment_information (store w) @
         [paymentInfo\<lparr>pin_InvoiceID := inv_InvoiceID invoice, pin_CreatedAt := now (store w),
                       pin_UpdatedAt := now (store w)\<rparr>],
       invoice_activities := invoice_activities (store w) @
         [(creation_activity invoice (fst (uuid_New E (rng w))))\<lparr>iac_CreatedAt := now (store w)\<rparr>],
       recent_activities := recent_activities (store w) @
         [(creation_recent_activity invoice (fst (uuid_New E (rng w))))
            \<lparr>rac_CreatedAt := now (store w)\<rparr>]\<rparr>"
    by (simp add: c(2) r2(1) r1(1) new)
  show "fault E Begin = None"
    using b by (auto simp: pool_Begin_def split: option.splits)
  show "fault E (InsertInvoice (invoice\<lparr>inv_CustomerID := customerID\<rparr>)) = None"
    by (rule r1(2))
  show "item \<in> set items \<Longrightarrow>
         fault E (InsertInvoiceItem (item\<lparr>itm_InvoiceID := inv_InvoiceID invoice\<rparr>)) = None"
    by (rule r1(3))
  show "fault E (InsertPaymentInformation (paymentInfo\<lparr>pin_InvoiceID := inv_InvoiceID invoice\<rparr>))
         = None"
    by (rule r1(4))
  show "fault E (InsertInvoiceActivity (creation_activity invoice (fst (uuid_New E (rng w))))) = None"
    using r2(2) by (simp add: new)
  show "fault E (InsertRecentActivity (creation_recent_activity invoice (fst (uuid_New E (rng w)))))
         = None"
    using r2(3) by (simp add: new)
  show "fault E Commit = None" by (rule c(1))
qed

lemma CreateInvoice_fault:
  assumes f: "fault E Begin \<noteq> None
        \<or> fault E (InsertInvoice (invoice\<lparr>inv_CustomerID := customerID\<rparr>)) \<noteq> None
        \<or> (\<exists>item \<in> set items.
              fault E (InsertInvoiceItem (item\<lparr>itm_InvoiceID := inv_InvoiceID invoice\<rparr>)) \<noteq> None)
        \<or> fault E (InsertPaymentInformation (paymentInfo\<lparr>pin_InvoiceID := inv_InvoiceID invoice\<rparr>))
             \<noteq> None
        \<or> fault E (InsertInvoiceActivity (creation_activity invoice (fst (uuid_New E (rng w)))))
             \<noteq> None
        \<or> fault E (InsertRecentActivity (creation_recent_activity invoice (fst (uuid_New E (rng w)))))
             \<noteq> None
        \<or> fault E Commit \<noteq> None"
  shows "(\<exists>err. fst (invoiceRepoImpl_CreateInvoice E invoice items customerID paymentInfo w) = Inl err)
        \<and> store (snd (invoiceRepoImpl_CreateInvoice E invoice items customerID paymentInfo w))
            = store w"
proof -
  let ?R = "invoiceRepoImpl_CreateInvoice E invoice items customerID paymentInfo w"
  have "fst ?R \<noteq> Inr (inv_InvoiceID invoice)"
  proof
    assume "fst ?R = Inr (inv_InvoiceID invoice)"
    then have ok: "?R = (Inr (inv_InvoiceID invoice), snd ?R)"
      by (metis prod.collapse)
    have "\<forall>item \<in> set items.
            fault E (InsertInvoiceItem (item\<lparr>itm_InvoiceID := inv_InvoiceID invoice\<rparr>)) = None"
      using CreateInvoice_success(5) [OF ok] by blast
    with f CreateInvoice_success(3,4,6-9) [OF ok] show False by auto
  qed
  with CreateInvoice_result_cases [of E invoice items customerID paymentInfo w]
  obtain err where err: "fst ?R = Inl err" by blast
  then have "?R = (Inl err, snd ?R)" by (metis prod.collapse)
  from CreateInvoice_error_unchanged [OF this] err
  show "(\<exists>err. fst ?R = Inl err) \<and> store (snd ?R) = store w" by blast
qed

text \<open>
  C1. \<open>CreateInvoice\<close> of the repository sends every insert (the invoice row, each item
  row, the payment-information row, the invoice-activity row and the recent-activity row)
  on the one transaction it began. Whenever it returns an error, the committed database
  is the one before the call: no row of any kind is kept. Whenever it returns an
  identifier, that is the invoice's, and the committed database is the former one with
  exactly these rows added, the amounts as their columns store them. If the connection fails the begin, any one of the inserts or
  the commit, the call returns an error and the committed database is unchanged.
\<close>

theorem CreateInvoice_atomic:
  "(invoiceRepoImpl_CreateInvoice E invoice items customerID paymentInfo w = (Inl e, w')
      \<longrightarrow> store w' = store w)
   \<and> (invoiceRepoImpl_CreateInvoice E invoice items customerID paymentInfo w = (Inr iid, w')
      \<longrightarrow> iid = inv_InvoiceID invoice
        \<and> store w' = (store w)
            \<lparr>invoices := invoices (store w) @
               [(as_invoices_row (invoice\<lparr>inv_CustomerID := customerID\<rparr>))
                  \<lparr>inv_CreatedAt := now (store w), inv_UpdatedAt := now (store w)\<rparr>],
             invoice_items := invoice_items (store w) @
               map (stamp_item (inv_InvoiceID invoice) (now (store w))) items,
             payment_information := payment_information (store w) @
               [paymentInfo\<lparr>pin_InvoiceID := inv_InvoiceID invoice,
                             pin_CreatedAt := now (store w), pin_UpdatedAt := now (store w)\<rparr>],
             invoice_activities := invoice_activities (store w) @
               [(creation_activity invoice (fst (uuid_New E (rng w))))
                  \<lparr>iac_CreatedAt := now (store w)\<rparr>],
             recent_activities := recent_activities (store w) @
               [(creation_recent_activity invoice (fst (uuid_New E (rng w))))
                  \<lparr>rac_CreatedAt := now (store w)\<rparr>]\<rparr>)
   \<and> (fault E Begin \<noteq> None
        \<or> fault E (InsertInvoice (invoice\<lparr>inv_CustomerID := customerID\<rparr>)) \<noteq> None
        \<or> (\<exists>item \<in> set items.
              fault E (InsertInvoiceItem (item\<lparr>itm_InvoiceID := inv_InvoiceID invoice\<rparr>)) \<noteq> None)
        \<or> fault E (InsertPaymentInformation (paymentInfo\<lparr>pin_InvoiceID := inv_InvoiceID invoice\<rparr>))
             \<noteq> None
        \<or> fault E (InsertInvoiceActivity (creation_activity invoice (fst (uuid_New E (rng w)))))
             \<noteq> None
        \<or> fault E (InsertRecentActivity (creation_recent_activity invoice (fst (uuid_New E (rng w)))))
             \<noteq> None
        \<or> fault E Commit \<noteq> None
      \<longrightarrow> (\<exists>err. fst (invoiceRepoImpl_CreateInvoice E invoice items customerID paymentInfo w) = Inl err)
        \<and> store (snd (invoiceRepoImpl_CreateInvoice E invoice items customerID paymentInfo w))
            = store w)"
  apply (intro conjI)
    apply (rule impI, erule CreateInvoice_error_unchanged)
   apply (rule impI, rule conjI, erule CreateInvoice_success(1), erule CreateInvoice_success(2))
  apply (rule impI, erule CreateInvoice_fault)
  done

lemmas sample_run_defs =
  invoiceRepoImpl_CreateInvoice_def pool_Begin_def tx_Exec_def tx_Commit_def
  insert_invoice_rows_def insert_activity_rows_def creation_activity_def
  creation_recent_activity_def status_check_def numeric_fits_def
  sample_env_def commit_fails_env_def sample_world_def clash_world_def sample_db_def
  sample_user_def sample_customer_def sample_payment_method_def sample_invoice_def
  sample_items_def sample_payment_info_def

theorem CreateInvoice_atomic_witness:
  "invoiceRepoImpl_CreateInvoice sample_env (sample_invoice 10 ''1234567890'' ''paid'' 9000)
     sample_items 2 sample_payment_info clash_world
     = (Inl (PgError ''recent_activities_pkey''), clash_world\<lparr>rng := 101\<rparr>)
   \<and> store (clash_world\<lparr>rng := 101\<rparr>) = store clash_world
   \<and> fault commit_fails_env Commit \<noteq> None
   \<and> (\<exists>err. fst (invoiceRepoImpl_CreateInvoice commit_fails_env
                    (sample_invoice 10 ''1234567890'' ''paid'' 9000)
                    sample_items 2 sample_payment_info sample_world) = Inl err)
   \<and> store (snd (invoiceRepoImpl_CreateInvoice commit_fails_env
                    (sample_invoice 10 ''1234567890'' ''paid'' 9000)
                    sample_items 2 sample_payment_info sample_world)) = store sample_world
   \<and> fst (invoiceRepoImpl_CreateInvoice sample_env (sample_invoice 10 ''1234567890'' ''paid'' 9000)
            sample_items 2 sample_payment_info sample_world) = Inr 10
   \<and> map inv_InvoiceID (invoices (store (snd (invoiceRepoImpl_CreateInvoice sample_env
            (sample_invoice 10 ''1234567890'' ''paid'' 9000)
            sample_items 2 sample_payment_info sample_world)))) = [10]
   \<and> map itm_ItemID (invoice_items (store (snd (invoiceRepoImpl_CreateInvoice sample_env
            (sample_invoice 10 ''1234567890'' ''paid'' 9000)
            sample_items 2 sample_payment_info sample_world)))) = [21, 22]
   \<and> map pin_PaymentInfoID (payment_information (store (snd (invoiceRepoImpl_CreateInvoice
            sample_env (sample_invoice 10 ''1234567890'' ''paid'' 9000)
            sample_items 2 sample_payment_info sample_world)))) = [30]
   \<and> map iac_Title (invoice_activities (store (snd (invoiceRepoImpl_CreateInvoice sample_env
            (sample_invoice 10 ''1234567890'' ''paid'' 9000)
            sample_items 2 sample_payment_info sample_world)))) = [''Invoice Creation'']
   \<and> map rac_Title (recent_activities (store (snd (invoiceRepoImpl_CreateInvoice sample_env
            (sample_invoice 10 ''1234567890'' ''paid'' 9000)
            sample_items 2 sample_payment_info sample_world)))) = [''Invoice Creation'']"
proof -
  let ?inv = "sample_invoice 10 ''1234567890'' ''paid'' 9000"
  let ?clash = "invoiceRepoImpl_CreateInvoice sample_env ?inv sample_items 2 sample_payment_info
                  clash_world"
  let ?lost = "invoiceRepoImpl_CreateInvoice commit_fails_env ?inv sample_items 2
                 sample_payment_info sample_world"
  let ?ok = "invoiceRepoImpl_CreateInvoice sample_env ?inv sample_items 2 sample_payment_info
               sample_world"
  have clash: "?clash = (Inl (PgError ''recent_activities_pkey''), clash_world\<lparr>rng := 101\<rparr>)"
    by (simp add: sample_run_defs)
  have f: "fault commit_fails_env Commit \<noteq> None"
    by (simp add: commit_fails_env_def)
  have ok: "?ok = (Inr 10, snd ?ok)"
    by (simp add: sample_run_defs)
  note T1 = CreateInvoice_atomic [of sample_env ?inv sample_items 2 sample_payment_info clash_world
      "PgError ''recent_activities_pkey''" "clash_world\<lparr>rng := 101\<rparr>"]
  note T2 = CreateInvoice_atomic [of commit_fails_env ?inv sample_items 2 sample_payment_info
      sample_world]
  note T3 = CreateInvoice_atomic [of sample_env ?inv sample_items 2 sample_payment_info sample_world
      _ "snd ?ok" 10]
  from T1 clash have 1: "store (clash_world\<lparr>rng := 101\<rparr>) = store clash_world"
    by blast
  from T2 f have 2: "(\<exists>err. fst ?lost = Inl err) \<and> store (snd ?lost) = store sample_world"
    by blast
  from T3 ok have 3: "store (snd ?ok) = (store sample_world)
            \<lparr>invoices := invoices (store sample_world) @
               [(as_invoices_row (?inv\<lparr>inv_CustomerID := 2\<rparr>))
                  \<lparr>inv_CreatedAt := now (store sample_world),
                   inv_UpdatedAt := now (store sample_world)\<rparr>],
             invoice_items := invoice_items (store sample_world) @
               map (stamp_item (inv_InvoiceID ?inv) (now (store sample_world))) sample_items,
             payment_information := payment_information (store sample_world) @
               [sample_payment_info\<lparr>pin_InvoiceID := inv_InvoiceID ?inv,
                             pin_CreatedAt := now (store sample_world),
                             pin_UpdatedAt := now (store sample_world)\<rparr>],
             invoice_activities := invoice_activities (store sample_world) @
               [(creation_activity ?inv (fst (uuid_New sample_env (rng sample_world))))
                  \<lparr>iac_CreatedAt := now (store sample_world)\<rparr>],
             recent_activities := recent_activities (store sample_world) @
               [(creation_recent_activity ?inv (fst (uuid_New sample_env (rng sample_world))))
                  \<lparr>rac_CreatedAt := now (store sample_world)\<rparr>]\<rparr>"
    by blast
  have 4: "fst ?ok = Inr 10" using ok by (metis fst_conv)
  show ?thesis
    unfolding 3
    using clash 1 f 2 4
    by (simp add: sample_world_def sample_db_def sample_invoice_def sample_items_def
        sample_payment_info_def stamp_item_def creation_activity_def creation_recent_activity_def)
qed

subsection \<open>Invoice creation in the service: validation\<close>

lemma CreateInvoice_bad_sender:
  "uuid_Parse E (inf_SenderID (req_Invoice data)) = None \<Longrightarrow>
   invoiceServiceImpl_CreateInvoice E repo data w =
     (Inl (Errorf ''invalid sender id''), w\<lparr>rng := snd (uuid_New E (rng w))\<rparr>)"
  by (simp add: invoiceServiceImpl_CreateInvoice_def split: prod.splits)

lemma CreateInvoice_bad_customer:
  "uuid_Parse E (inf_SenderID (req_Invoice data)) \<noteq> None \<Longrightarrow>
   uuid_Parse E (req_CustomerID data) = None \<Longrightarrow>
   invoiceServiceImpl_CreateInvoice E repo data w =
     (Inl (Errorf ''invalid customer id''), w\<lparr>rng := snd (uuid_New E (rng w))\<rparr>)"
  by (auto simp: invoiceServiceImpl_CreateInvoice_def split: prod.splits)

lemma CreateInvoice_bad_status:
  "uuid_Parse E (inf_SenderID (req_Invoice data)) \<noteq> None \<Longrightarrow>
   uuid_Parse E (req_CustomerID data) \<noteq> None \<Longrightarrow>
   inf_Status (req_Invoice data) \<notin> {''draft'', ''pending'', ''paid'', ''overdue''} \<Longrightarrow>
   invoiceServiceImpl_CreateInvoice E repo data w =
     (Inl (Errorf (''invalid invoice status: '' @ inf_Status (req_Invoice data))),
      w\<lparr>rng := snd (uuid_New E (rng w))\<rparr>)"
  by (auto simp: invoiceServiceImpl_CreateInvoice_def ValidateInvoiceStatus_reject
      split: prod.splits)

lemma CreateInvoice_bad_issue_date:
  "uuid_Parse E (inf_SenderID (req_Invoice data)) \<noteq> None \<Longrightarrow>
   uuid_Parse E (req_CustomerID data) \<noteq> None \<Longrightarrow>
   inf_Status (req_Invoice data) \<in> {''draft'', ''pending'', ''paid'', ''overdue''} \<Longrightarrow>
   time_Parse E layout (inf_IssueDate (req_Invoice data)) = None \<Longrightarrow>
   invoiceServiceImpl_CreateInvoice E repo data w =
     (Inl (Errorf ''issue date has invalid date format''), w\<lparr>rng := snd (uuid_New E (rng w))\<rparr>)"
  using ValidateInvoiceStatus_accept [of "inf_Status (req_Invoice data)"]
  by (auto simp: invoiceServiceImpl_CreateInvoice_def split: prod.splits)

lemma CreateInvoice_bad_due_date:
  "uuid_Parse E (inf_SenderID (req_Invoice data)) \<noteq> None \<Longrightarrow>
   uuid_Parse E (req_CustomerID data) \<noteq> None \<Longrightarrow>
   inf_Status (req_Invoice data) \<in> {''draft'', ''pending'', ''paid'', ''overdue''} \<Longrightarrow>
   time_Parse E layout (inf_IssueDate (req_Invoice data)) \<noteq> None \<Longrightarrow>
   time_Parse E layout (inf_DueDate (req_Invoice data)) = None \<Longrightarrow>
   invoiceServiceImpl_CreateInvoice E repo data w =
     (Inl (Errorf ''due date has invalid date format''), w\<lparr>rng := snd (uuid_New E (rng w))\<rparr>)"
  using ValidateInvoiceStatus_accept [of "inf_Status (req_Invoice data)"]
  by (auto simp: invoiceServiceImpl_CreateInvoice_def split: prod.splits)

lemma CreateInvoice_bad_payment_method:
  "uuid_Parse E (inf_SenderID (req_Invoice data)) \<noteq> None \<Longrightarrow>
   uuid_Parse E (req_CustomerID data) \<noteq> None \<Longrightarrow>
   inf_Status (req_Invoice data) \<in> {''draft'', ''pending'', ''paid'', ''overdue''} \<Longrightarrow>
   time_Parse E layout (inf_IssueDate (req_Invoice data)) \<noteq> None \<Longrightarrow>
   time_Parse E layout (inf_DueDate (req_Invoice data)) \<noteq> None \<Longrightarrow>
   uuid_Parse E (req_PaymentMethodID data) = None \<Longrightarrow>
   fst (invoiceServiceImpl_CreateInvoice E repo data w) = Inl (Errorf ''invalid payment method id'')
   \<and> store (snd (invoiceServiceImpl_CreateInvoice E repo data w)) = store w
   \<and> invoiceServiceImpl_CreateInvoice E repo data w = invoiceServiceImpl_CreateInvoice E repo' data w"
  using ValidateInvoiceStatus_accept [of "inf_Status (req_Invoice data)"]
  by (auto simp: invoiceServiceImpl_CreateInvoice_def split: prod.splits)

lemma CreateInvoice_all_valid:
  "uuid_Parse E (inf_SenderID (req_Invoice data)) = Some senderID \<Longrightarrow>
   uuid_Parse E (req_CustomerID data) = Some customerID \<Longrightarrow>
   inf_Status (req_Invoice data) \<in> {''draft'', ''pending'', ''paid'', ''overdue''} \<Longrightarrow>
   time_Parse E layout (inf_IssueDate (req_Invoice data)) = Some issueDate \<Longrightarrow>
   time_Parse E layout (inf_DueDate (req_Invoice data)) = Some dueDate \<Longrightarrow>
   uuid_Parse E (req_PaymentMethodID data) = Some paymentMethodID \<Longrightarrow>
   \<exists>invoiceNumber items paymentInfoID g.
     make_items E (fst (uuid_New E (rng w))) (req_InvoiceItems data)
        (snd (RandomNumber E 1000000000 9999999999 (snd (uuid_New E (rng w))))) = (items, g)
     \<and> invoiceServiceImpl_CreateInvoice E repo data w =
       InvoiceRepository_CreateInvoice repo
         \<lparr>inv_InvoiceID = fst (uuid_New E (rng w)),
          inv_InvoiceNumber = invoiceNumber,
          inv_SenderID = senderID,
          inv_CustomerID = customerID,
          inv_IssueDate = issueDate,
          inv_DueDate = dueDate,
          inv_TotalAmount = inf_TotalAmount (req_Invoice data),
          inv_DiscountPercentage = inf_DiscountPercentage (req_Invoice data),
          inv_DiscountedAmount = inf_DiscountedAmount (req_Invoice data),
          inv_FinalAmount = inf_FinalAmount (req_Invoice data),
          inv_Status = inf_Status (req_Invoice data),
          inv_Currency = inf_Currency (req_Invoice data),
          inv_Notes = inf_Notes (req_Invoice data),
          inv_CreatedAt = 0, inv_UpdatedAt = 0\<rparr>
         items customerID
         \<lparr>pin_PaymentInfoID = paymentInfoID, pin_InvoiceID = fst (uuid_New E (rng w)),
          pin_PaymentMethodID = paymentMethodID, pin_CreatedAt = 0, pin_UpdatedAt = 0\<rparr>
         (w\<lparr>rng := snd (uuid_New E g)\<rparr>)"
  using ValidateInvoiceStatus_accept [of "inf_Status (req_Invoice data)"]
  by (auto simp: invoiceServiceImpl_CreateInvoice_def split: prod.splits)

text \<open>
  C2. The service checks a creation request before it calls the repository, and the first
  check that fails decides the error: the sender identifier (\<open>invalid sender id\<close>), the
  customer identifier (\<open>invalid customer id\<close>), the status (\<open>invalid invoice status: \<close> and
  the status), the issue date against the layout \<open>2006-01-02\<close> (\<open>issue date has invalid
  date format\<close>), the due date (\<open>due date has invalid date format\<close>), the payment-method
  identifier (\<open>invalid payment method id\<close>). In each of these cases the database is the
  one before the call and the outcome is the same for every repository: no repository
  method has run.
\<close>

theorem CreateInvoice_validation_order:
  "(uuid_Parse E (inf_SenderID (req_Invoice data)) = None
      \<longrightarrow> fst (invoiceServiceImpl_CreateInvoice E repo data w) = Inl (Errorf ''invalid sender id'')
        \<and> store (snd (invoiceServiceImpl_CreateInvoice E repo data w)) = store w
        \<and> invoiceServiceImpl_CreateInvoice E repo data w = invoiceServiceImpl_CreateInvoice E repo' data w)
   \<and> (uuid_Parse E (inf_SenderID (req_Invoice data)) \<noteq> None
      \<and> uuid_Parse E (req_CustomerID data) = None
      \<longrightarrow> fst (invoiceServiceImpl_CreateInvoice E repo data w) = Inl (Errorf ''invalid customer id'')
        \<and> store (snd (invoiceServiceImpl_CreateInvoice E repo data w)) = store w
        \<and> invoiceServiceImpl_CreateInvoice E repo data w = invoiceServiceImpl_CreateInvoice E repo' data w)
   \<and> (uuid_Parse E (inf_SenderID (req_Invoice data)) \<noteq> None
      \<and> uuid_Parse E (req_CustomerID data) \<noteq> None
      \<and> inf_Status (req_Invoice data) \<notin> {''draft'', ''pending'', ''paid'', ''overdue''}
      \<longrightarrow> fst (invoiceServiceImpl_CreateInvoice E repo data w)
            = Inl (Errorf (''invalid invoice status: '' @ inf_Status (req_Invoice data)))
        \<and> store (snd (invoiceServiceImpl_CreateInvoice E repo data w)) = store w
        \<and> invoiceServiceImpl_CreateInvoice E repo data w = invoiceServiceImpl_CreateInvoice E repo' data w)
   \<and> (uuid_Parse E (inf_SenderID (req_Invoice data)) \<noteq> None
      \<and> uuid_Parse E (req_CustomerID data) \<noteq> None
      \<and> inf_Status (req_Invoice data) \<in> {''draft'', ''pending'', ''paid'', ''overdue''}
      \<and> time_Parse E layout (inf_IssueDate (req_Invoice data)) = None
      \<longrightarrow> fst (invoiceServiceImpl_CreateInvoice E repo data w)
            = Inl (Errorf ''issue date has invalid date format'')
        \<and> store (snd (invoiceServiceImpl_CreateInvoice E repo data w)) = store w
        \<and> invoiceServiceImpl_CreateInvoice E repo data w = invoiceServiceImpl_CreateInvoice E repo' data w)
   \<and> (uuid_Parse E (inf_SenderID (req_Invoice data)) \<noteq> None
      \<and> uuid_Parse E (req_CustomerID data) \<noteq> None
      \<and> inf_Status (req_Invoice data) \<in> {''draft'', ''pending'', ''paid'', ''overdue''}
      \<and> time_Parse E layout (inf_IssueDate (req_Invoice data)) \<noteq> None
      \<and> time_Parse E layout (inf_DueDate (req_Invoice data)) = None
      \<longrightarrow> fst (invoiceServiceImpl_CreateInvoice E repo data w)
            = Inl (Errorf ''due date has invalid date format'')
        \<and> store (snd (invoiceServiceImpl_CreateInvoice E repo data w)) = store w
        \<and> invoiceServiceImpl_CreateInvoice E repo data w = invoiceServiceImpl_CreateInvoice E repo' data w)
   \<and> (uuid_Parse E (inf_SenderID (req_Invoice data)) \<noteq> None
      \<and> uuid_Parse E (req_CustomerID data) \<noteq> None
      \<and> inf_Status (req_Invoice data) \<in> {''draft'', ''pending'', ''paid'', ''overdue''}
      \<and> time_Parse E layout (inf_IssueDate (req_Invoice data)) \<noteq> None
      \<and> time_Parse E layout (inf_DueDate (req_Invoice data)) \<noteq> None
      \<and> uuid_Parse E (req_PaymentMethodID data) = None
      \<longrightarrow> fst (invoiceServiceImpl_CreateInvoice E repo data w)
            = Inl (Errorf ''invalid payment method id'')
        \<and> store (snd (invoiceServiceImpl_CreateInvoice E repo data w)) = store w
        \<and> invoiceServiceImpl_CreateInvoice E repo data w = invoiceServiceImpl_CreateInvoice E repo' data w)"
  apply (intro conjI)
       apply (simp add: CreateInvoice_bad_sender)
      apply (simp add: CreateInvoice_bad_customer)
     apply (simp add: CreateInvoice_bad_status)
    apply (simp add: CreateInvoice_bad_issue_date)
   apply (simp add: CreateInvoice_bad_due_date)
  apply (rule impI, elim conjE, rule CreateInvoice_bad_payment_method; assumption)
  done


lemmas sample_request_defs =
  valid_upto_def sample_create_request_def id1_def id2_def id3_def layout_def
  sample_env_def sample_uuid_Parse_def hex_val_def
  sample_time_Parse_def ParseUint_def is_digit_def digit_val_def

lemma valid_upto_sender:
  "uuid_Parse sample_env (inf_SenderID (req_Invoice (valid_upto k))) = (if 0 < k then Some 1 else None)"
  by (simp add: sample_request_defs)

lemma valid_upto_customer:
  "uuid_Parse sample_env (req_CustomerID (valid_upto k)) = (if 1 < k then Some 2 else None)"
  by (simp add: sample_request_defs)

lemma valid_upto_status:
  "inf_Status (req_Invoice (valid_upto k)) = (if 2 < k then ''paid'' else ''PAID'')"
  by (simp add: sample_request_defs)

lemma valid_upto_issue:
  "time_Parse sample_env layout (inf_IssueDate (req_Invoice (valid_upto k)))
   = (if 3 < k then Some 20240105 else None)"
  by (simp add: sample_request_defs)

lemma valid_upto_due:
  "time_Parse sample_env layout (inf_DueDate (req_Invoice (valid_upto k)))
   = (if 4 < k then Some 20240205 else None)"
  by (simp add: sample_request_defs)

lemma valid_upto_method:
  "uuid_Parse sample_env (req_PaymentMethodID (valid_upto k)) = (if 5 < k then Some 3 else None)"
  by (simp add: sample_request_defs)

lemmas valid_upto_simps =
  valid_upto_sender valid_upto_customer valid_upto_status valid_upto_issue valid_upto_due
  valid_upto_method

theorem CreateInvoice_validation_order_witness:
  "uuid_Parse sample_env (inf_SenderID (req_Invoice (valid_upto 0))) = None
   \<and> fst (invoiceServiceImpl_CreateInvoice sample_env (newInvoiceRepoImpl sample_env) (valid_upto 0)
            sample_world) = Inl (Errorf ''invalid sender id'')
   \<and> store (snd (invoiceServiceImpl_CreateInvoice sample_env (newInvoiceRepoImpl sample_env)
                   (valid_upto 0) sample_world)) = store sample_world
   \<and> uuid_Parse sample_env (inf_SenderID (req_Invoice (valid_upto 1))) \<noteq> None
   \<and> uuid_Parse sample_env (req_CustomerID (valid_upto 1)) = None
   \<and> fst (invoiceServiceImpl_CreateInvoice sample_env (newInvoiceRepoImpl sample_env) (valid_upto 1)
            sample_world) = Inl (Errorf ''invalid customer id'')
   \<and> inf_Status (req_Invoice (valid_upto 2)) = ''PAID''
   \<and> fst (invoiceServiceImpl_CreateInvoice sample_env (newInvoiceRepoImpl sample_env) (valid_upto 2)
            sample_world) = Inl (Errorf ''invalid invoice status: PAID'')
   \<and> time_Parse sample_env layout (inf_IssueDate (req_Invoice (valid_upto 3))) = None
   \<and> fst (invoiceServiceImpl_CreateInvoice sample_env (newInvoiceRepoImpl sample_env) (valid_upto 3)
            sample_world) = Inl (Errorf ''issue date has invalid date format'')
   \<and> time_Parse sample_env layout (inf_DueDate (req_Invoice (valid_upto 4))) = None
   \<and> fst (invoiceServiceImpl_CreateInvoice sample_env (newInvoiceRepoImpl sample_env) (valid_upto 4)
            sample_world) = Inl (Errorf ''due date has invalid date format'')
   \<and> uuid_Parse sample_env (req_PaymentMethodID (valid_upto 5)) = None
   \<and> fst (invoiceServiceImpl_CreateInvoice sample_env (newInvoiceRepoImpl sample_env) (valid_upto 5)
            sample_world) = Inl (Errorf ''invalid payment method id'')
   \<and> store (snd (invoiceServiceImpl_CreateInvoice sample_env (newInvoiceRepoImpl sample_env)
                   (valid_upto 5) sample_world)) = store sample_world
   \<and> invoiceServiceImpl_CreateInvoice sample_env (newInvoiceRepoImpl sample_env) (valid_upto 5)
        sample_world
      = invoiceServiceImpl_CreateInvoice sample_env recording_InvoiceRepository (valid_upto 5)
          sample_world"
proof -
  note T = CreateInvoice_validation_order [of sample_env _ "newInvoiceRepoImpl sample_env"
      sample_world recording_InvoiceRepository]
  have h0: "uuid_Parse sample_env (inf_SenderID (req_Invoice (valid_upto 0))) = None"
    by (simp add: valid_upto_simps)
  have h1: "uuid_Parse sample_env (inf_SenderID (req_Invoice (valid_upto 1))) \<noteq> None
      \<and> uuid_Parse sample_env (req_CustomerID (valid_upto 1)) = None"
    by (simp add: valid_upto_simps)
  have h2: "uuid_Parse sample_env (inf_SenderID (req_Invoice (valid_upto 2))) \<noteq> None
      \<and> uuid_Parse sample_env (req_CustomerID (valid_upto 2)) \<noteq> None
      \<and> inf_Status (req_Invoice (valid_upto 2)) \<notin> {''draft'', ''pending'', ''paid'', ''overdue''}"
    and s2: "inf_Status (req_Invoice (valid_upto 2)) = ''PAID''"
    by (simp_all add: valid_upto_simps)
  have h3: "uuid_Parse sample_env (inf_SenderID (req_Invoice (valid_upto 3))) \<noteq> None
      \<and> uuid_Parse sample_env (req_CustomerID (valid_upto 3)) \<noteq> None
      \<and> inf_Status (req_Invoice (valid_upto 3)) \<in> {''draft'', ''pending'', ''paid'', ''overdue''}
      \<and> time_Parse sample_env layout (inf_IssueDate (req_Invoice (valid_upto 3))) = None"
    by (simp add: valid_upto_simps)
  have h4: "uuid_Parse sample_env (inf_SenderID (req_Invoice (valid_upto 4))) \<noteq> None
      \<and> uuid_Parse sample_env (req_CustomerID (valid_upto 4)) \<noteq> None
      \<and> inf_Status (req_Invoice (valid_upto 4)) \<in> {''draft'', ''pending'', ''paid'', ''overdue''}
      \<and> time_Parse sample_env layout (inf_IssueDate (req_Invoice (valid_upto 4))) \<noteq> None
      \<and> time_Parse sample_env layout (inf_DueDate (req_Invoice (valid_upto 4))) = None"
    by (simp add: valid_upto_simps)
  have h5: "uuid_Parse sample_env (inf_SenderID (req_Invoice (valid_upto 5))) \<noteq> None
      \<and> uuid_Parse sample_env (req_CustomerID (valid_upto 5)) \<noteq> None
      \<and> inf_Status (req_Invoice (valid_upto 5)) \<in> {''draft'', ''pending'', ''paid'', ''overdue''}
      \<and> time_Parse sample_env layout (inf_IssueDate (req_Invoice (valid_upto 5))) \<noteq> None
      \<and> time_Parse sample_env layout (inf_DueDate (req_Invoice (valid_upto 5))) \<noteq> None
      \<and> uuid_Parse sample_env (req_PaymentMethodID (valid_upto 5)) = None"
    by (simp add: valid_upto_simps)
  from T [of "valid_upto 0"] h0
  have 0: "fst (invoiceServiceImpl_CreateInvoice sample_env (newInvoiceRepoImpl sample_env)
                  (valid_upto 0) sample_world) = Inl (Errorf ''invalid sender id'')"
    "store (snd (invoiceServiceImpl_CreateInvoice sample_env (newInvoiceRepoImpl sample_env)
                   (valid_upto 0) sample_world)) = store sample_world"
    by blast+
  from T [of "valid_upto 1"] h1
  have 1: "fst (invoiceServiceImpl_CreateInvoice sample_env (newInvoiceRepoImpl sample_env)
                  (valid_upto 1) sample_world) = Inl (Errorf ''invalid customer id'')"
    by blast
  from T [of "valid_upto 2"] h2
  have "fst (invoiceServiceImpl_CreateInvoice sample_env (newInvoiceRepoImpl sample_env)
               (valid_upto 2) sample_world)
        = Inl (Errorf (''invalid invoice status: '' @ inf_Status (req_Invoice (valid_upto 2))))"
    by blast
  then have 2: "fst (invoiceServiceImpl_CreateInvoice sample_env (newInvoiceRepoImpl sample_env)
                  (valid_upto 2) sample_world) = Inl (Errorf ''invalid invoice status: PAID'')"
    by (simp add: s2)
  from T [of "valid_upto 3"] h3
  have 3: "fst (invoiceServiceImpl_CreateInvoice sample_env (newInvoiceRepoImpl sample_env)
                  (valid_upto 3) sample_world) = Inl (Errorf ''issue date has invalid date format'')"
    by blast
  from T [of "valid_upto 4"] h4
  have 4: "fst (invoiceServiceImpl_CreateInvoice sample_env (newInvoiceRepoImpl sample_env)
                  (valid_upto 4) sample_world) = Inl (Errorf ''due date has invalid date format'')"
    by blast
  from T [of "valid_upto 5"] h5
  have 5: "fst (invoiceServiceImpl_CreateInvoice sample_env (newInvoiceRepoImpl sample_env)
                  (valid_upto 5) sample_world) = Inl (Errorf ''invalid payment method id'')"
    "store (snd (invoiceServiceImpl_CreateInvoice sample_env (newInvoiceRepoImpl sample_env)
                   (valid_upto 5) sample_world)) = store sample_world"
    "invoiceServiceImpl_CreateInvoice sample_env (newInvoiceRepoImpl sample_env)
                (valid_upto 5) sample_world
              = invoiceServiceImpl_CreateInvoice sample_env recording_InvoiceRepository
                  (valid_upto 5) sample_world"
    by blast+
  show ?thesis
    by (intro conjI) (use 0 1 2 3 4 5 h0 h1 s2 h3 h4 h5 in blast)+
qed

subsection \<open>Invoice creation in the service: the amounts\<close>











subsection \<open>Invoice details without payment information\<close>

lemma scan_details_null:
  "scan_details (i, s, c, None) = Inl (ScanError ''cannot scan NULL into *string'')"
  by (simp add: scan_details_def scan_uuid_def scan_string_def)

lemma select_invoice_details_no_payment:
  "[p \<leftarrow> payment_information db. pin_InvoiceID p = invoiceID] = [] \<Longrightarrow>
   (i, s, c, pm) \<in> set (select_invoice_details db invoiceID) \<Longrightarrow> pm = None"
  by (auto simp: select_invoice_details_def left_join_def split: if_splits option.splits)

lemma GetInvoiceDetails_null_payment_method:
  assumes "fault E (SelectInvoiceDetails invoiceID) = None"
    and "[p \<leftarrow> payment_information (store w). pin_InvoiceID p = invoiceID] = []"
  shows "invoiceRepoImpl_GetInvoiceDetails E invoiceID w = (Inl ErrNoRows, w)
     \<or> invoiceRepoImpl_GetInvoiceDetails E invoiceID w
         = (Inl (ScanError ''cannot scan NULL into *string''), w)"
proof (cases "select_invoice_details (store w) invoiceID")
  case Nil
  with assms(1) show ?thesis by (simp add: invoiceRepoImpl_GetInvoiceDetails_def)
next
  case (Cons row rows)
  obtain i s c pm where row: "row = (i, s, c, pm)" by (cases row)
  with Cons have "(i, s, c, pm) \<in> set (select_invoice_details (store w) invoiceID)" by simp
  from select_invoice_details_no_payment [OF assms(2) this] have "pm = None" .
  with Cons row assms(1) show ?thesis
    by (simp add: invoiceRepoImpl_GetInvoiceDetails_def scan_details_null)
qed

lemmas details_run_defs =
  invoiceRepoImpl_GetInvoiceDetails_def select_invoice_details_def left_join_def
  scan_details_def scan_uuid_def scan_string_def select_invoice_items_def
  select_invoice_activities_def zero_UserPaymentMethod_def uuid_Nil_def
  sample_details_world_def sample_ledger_world_def sample_db_def sample_invoice_def
  sample_user_def sample_customer_def sample_payment_method_def sample_env_def

text \<open>
  C3 fails on the code. The query outer-joins the payment method, so an invoice without a
  payment-information row still yields a row, with \<open>NULL\<close> in the seven payment-method
  columns; but five of them are scanned into Go strings, which cannot take \<open>NULL\<close>, and
  \<open>GetInvoiceDetails\<close> returns the scan error. In the sample database invoice 11 has no
  payment-information row and its details cannot be fetched, while invoice 12, which has
  one, is returned with its payment method.
\<close>

theorem GetInvoiceDetails_without_payment_information:
  "[p \<leftarrow> payment_information (store sample_details_world). pin_InvoiceID p = 11] = []
   \<and> map inv_InvoiceID (invoices (store sample_details_world)) = [11, 12, 13]
   \<and> invoiceRepoImpl_GetInvoiceDetails sample_env 11 sample_details_world
       = (Inl (ScanError ''cannot scan NULL into *string''), sample_details_world)
   \<and> map_sum id det_PaymentInformation
        (fst (invoiceRepoImpl_GetInvoiceDetails sample_env 12 sample_details_world))
       = Inr (sample_payment_method\<lparr>upm_CreatedAt := 0, upm_UpdatedAt := 0\<rparr>)"
  by (simp add: details_run_defs)

end
